theory Spec2Isabelle
  imports Main "HOL-Library.Word"
begin

unbundle bit_operations_syntax

section \<open>Go runtime: panics, formatting and string helpers\<close>

text \<open>
  A Go \<open>[]byte\<close> is a list of 8-bit words, \<open>uint64\<close> a 64-bit word.  Go's \<open>int\<close>
  is used only for offsets into the input and for sizes; they stay far below
  \<open>2^63\<close>, so they are natural numbers here.  A run-time panic of the Go program is
  a value of type \<open>go_panic\<close>, returned on the left of a sum.
\<close>

type_synonym byte = "8 word"

datatype go_panic = IndexOutOfRange | NilDereference

text \<open>\<open>fmt.Sprintf("%x", v)\<close> for an unsigned \<open>v\<close>: lower-case hexadecimal, no padding.\<close>

fun fmt_x :: "nat \<Rightarrow> string" where
  "fmt_x n =
     (if n < 16 then [''0123456789abcdef'' ! n]
      else fmt_x (n div 16) @ [''0123456789abcdef'' ! (n mod 16)])"

declare fmt_x.simps [simp del]

text \<open>\<open>"%02x"\<close>: the same, padded with zeros to at least two digits.\<close>

definition fmt_02x :: "nat \<Rightarrow> string" where
  "fmt_02x n = (if n < 16 then CHR ''0'' # fmt_x n else fmt_x n)"

text \<open>\<open>"%x"\<close> of an \<open>int8\<close>: a minus sign and the magnitude when the value is negative.\<close>

definition fmt_x_int8 :: "byte \<Rightarrow> string" where
  "fmt_x_int8 b = (if sint b < 0 then CHR ''-'' # fmt_x (nat (- sint b)) else fmt_x (nat (sint b)))"

text \<open>\<open>"%d"\<close> of a non-negative integer.\<close>

fun fmt_d :: "nat \<Rightarrow> string" where
  "fmt_d n =
     (if n < 10 then [''0123456789'' ! n]
      else fmt_d (n div 10) @ [''0123456789'' ! (n mod 10)])"

declare fmt_d.simps [simp del]

text \<open>\<open>binary.LittleEndian.Uint16\<close> and \<open>Uint32\<close>; every call site checks the length first.\<close>

definition Uint16 :: "byte list \<Rightarrow> 16 word" where
  "Uint16 b = ucast (b ! 0) OR push_bit 8 (ucast (b ! 1))"

definition Uint32 :: "byte list \<Rightarrow> 32 word" where
  "Uint32 b = ucast (b ! 0) OR push_bit 8 (ucast (b ! 1)) OR push_bit 16 (ucast (b ! 2))
              OR push_bit 24 (ucast (b ! 3))"

text \<open>The slice expression \<open>data[lo:hi]\<close>, used only where \<open>hi \<le> len(data)\<close> was checked.\<close>

definition subslice :: "'a list \<Rightarrow> nat \<Rightarrow> nat \<Rightarrow> 'a list" where
  "subslice xs lo hi = take (hi - lo) (drop lo xs)"

text \<open>\<open>strings.HasPrefix\<close> and \<open>strings.Contains\<close>.\<close>

fun HasPrefix :: "string \<Rightarrow> string \<Rightarrow> bool" where
  "HasPrefix s [] = True"
| "HasPrefix [] (p # ps) = False"
| "HasPrefix (c # cs) (p # ps) = (c = p \<and> HasPrefix cs ps)"

fun Contains :: "string \<Rightarrow> string \<Rightarrow> bool" where
  "Contains [] sub = (sub = [])"
| "Contains (c # cs) sub = (HasPrefix (c # cs) sub \<or> Contains cs sub)"

section \<open>Instructions\<close>

datatype InstructionCategory =
    CatUnknown | CatDataTransfer | CatArithmetic | CatLogical | CatCompare | CatCall
  | CatReturn | CatJump | CatStack | CatInterrupt | CatNop | CatOther

record Instruction =
  Address :: "64 word"
  Bytes :: "byte list"
  Mnemonic :: string
  Operands :: string
  Size :: nat
  Category :: InstructionCategory
  RegsRead :: "string list"
  RegsWritten :: "string list"
  HasMemoryAccess :: bool
  MemoryBase :: string
  MemoryIndex :: string
  MemoryDisp :: "64 word"
  MemoryScale :: int
  IsConditional :: bool
  IsBranch :: bool
  BranchTarget :: "64 word"
  FallsThrough :: bool

text \<open>The zero value \<open>Instruction{}\<close>.\<close>

definition Instruction_zero :: Instruction where
  "Instruction_zero =
     \<lparr>Address = 0, Bytes = [], Mnemonic = [], Operands = [], Size = 0, Category = CatUnknown,
      RegsRead = [], RegsWritten = [], HasMemoryAccess = False, MemoryBase = [],
      MemoryIndex = [], MemoryDisp = 0, MemoryScale = 0, IsConditional = False,
      IsBranch = False, BranchTarget = 0, FallsThrough = False\<rparr>"

definition IsControlFlow :: "Instruction \<Rightarrow> bool" where
  "IsControlFlow i = (Category i = CatCall \<or> Category i = CatReturn \<or> Category i = CatJump)"

definition IsTerminator :: "Instruction \<Rightarrow> bool" where
  "IsTerminator i = (Category i = CatReturn \<or> Category i = CatJump \<or> Category i = CatCall)"

section \<open>The pattern decoder\<close>

definition regName8 :: "nat \<Rightarrow> string" where
  "regName8 n =
     (let regs = [''al'', ''cl'', ''dl'', ''bl'', ''ah'', ''ch'', ''dh'', ''bh''] in
      if n < length regs then regs ! n else ''r'' @ fmt_d n @ ''b'')"

definition regName64 :: "nat \<Rightarrow> bool \<Rightarrow> string" where
  "regName64 n is64 =
     (if is64 then
        (let regs = [''rax'', ''rcx'', ''rdx'', ''rbx'', ''rsp'', ''rbp'', ''rsi'', ''rdi''] in
         if n < length regs then regs ! n else ''r'' @ fmt_d n)
      else
        (let regs = [''eax'', ''ecx'', ''edx'', ''ebx'', ''esp'', ''ebp'', ''esi'', ''edi''] in
         if n < length regs then regs ! n else ''r'' @ fmt_d n @ ''d''))"

text \<open>
  \<open>decodeModRMDetailed\<close> formats the two operands of a ModR/M byte; \<open>data\<close> is the input
  after the ModR/M byte.  With \<open>mod = 1\<close> it reads \<open>data[0]\<close> without a length check,
  which panics on an empty slice; with \<open>mod = 2\<close> it checks \<open>len(data) >= 4\<close>.
  It returns strings only: the caller is not told how many bytes the operand took.
\<close>

definition decodeModRMDetailed :: "byte \<Rightarrow> byte list \<Rightarrow> bool \<Rightarrow> go_panic + (string \<times> string)" where
  "decodeModRMDetailed modrm data is64 =
     (let md = drop_bit 6 modrm AND 0x3;
          reg = unat (drop_bit 3 modrm AND 0x7);
          rm = unat (modrm AND 0x7);
          regStr = regName64 reg is64;
          rmStr = regName64 rm is64
      in if md = 0 then Inr (''['' @ rmStr @ '']'', regStr)
         else if md = 1 then
           (case data of
              [] \<Rightarrow> Inl IndexOutOfRange
            | d0 # _ \<Rightarrow> Inr (''['' @ rmStr @ ''+0x'' @ fmt_x (unat d0) @ '']'', regStr))
         else if md = 2 then
           (if length data \<ge> 4
            then Inr (''['' @ rmStr @ ''+0x'' @ fmt_x (unat (Uint32 (subslice data 0 4))) @ '']'', regStr)
            else Inr (''['' @ rmStr @ ''+disp32]'', regStr))
         else if md = 3 then Inr (rmStr, regStr)
         else Inr (''?'', ''?''))"

definition jccMnemonic :: "byte \<Rightarrow> string" where
  "jccMnemonic opcode =
     (let cc = opcode AND 0x0F;
          mnemonics = [''jo'', ''jno'', ''jb'', ''jae'', ''je'', ''jne'', ''jbe'', ''ja'',
                       ''js'', ''jns'', ''jp'', ''jnp'', ''jl'', ''jge'', ''jle'', ''jg'']
      in if unat cc < length mnemonics then mnemonics ! unat cc else ''jcc_'' @ fmt_x (unat cc))"

text \<open>
  The prefix loop at the head of \<open>EnhancedDecodeInstruction\<close>: up to four bytes are
  looked at; a legacy prefix advances the offset, and in 64-bit mode a REX byte is
  consumed once, records its W bit and ends the loop.  The result is the offset of
  the opcode and \<open>rexW\<close>.
\<close>

function skip_prefixes :: "byte list \<Rightarrow> bool \<Rightarrow> nat \<Rightarrow> nat \<times> bool" where
  "skip_prefixes data is64bit offset =
     (if offset < length data \<and> offset < 4 then
        (if data ! offset \<in> set [0xF0, 0xF2, 0xF3, 0x2E, 0x36, 0x3E, 0x26, 0x64, 0x65, 0x66, 0x67]
         then skip_prefixes data is64bit (offset + 1)
         else if is64bit \<and> data ! offset \<ge> 0x40 \<and> data ! offset \<le> 0x4F
              then (offset + 1, data ! offset AND 0x08 \<noteq> 0)
              else (offset, False))
      else (offset, False))"
  by pat_completeness auto
termination
  by (relation "measure (\<lambda>(data, is64bit, offset). 4 - offset)") auto

declare skip_prefixes.simps [simp del]

text \<open>
  One pass through the opcode switch ends in one of three ways: a panic, the early
  \<open>return Instruction{}, 0\<close>, or falling out of the switch with the instruction built
  so far and the offset reached.
\<close>

datatype decode_step = Panics go_panic | ReturnZero | Continue Instruction nat


text \<open>
  Code shapes that the switch repeats.  \<open>need_byte\<close> is the guard
  \<open>if offset >= len(data) { return Instruction{}, 0 }\<close>; \<open>read_modrm\<close> is that guard
  followed by \<open>modrm := data[offset]; offset++\<close>; \<open>modrm_operands\<close> is the call
  \<open>decodeModRMDetailed(modrm, data[offset:], rexW)\<close>, whose panic ends the decoding.
  The rest of the case is the continuation.
\<close>

definition need_byte :: "byte list \<Rightarrow> nat \<Rightarrow> decode_step \<Rightarrow> decode_step" where
  "need_byte data offset k = (if offset \<ge> length data then ReturnZero else k)"

definition need_bytes :: "nat \<Rightarrow> byte list \<Rightarrow> nat \<Rightarrow> decode_step \<Rightarrow> decode_step" where
  "need_bytes n data offset k = (if offset + n > length data then ReturnZero else k)"

definition read_modrm :: "byte list \<Rightarrow> nat \<Rightarrow> (byte \<Rightarrow> nat \<Rightarrow> decode_step) \<Rightarrow> decode_step" where
  "read_modrm data offset k =
     (if offset \<ge> length data then ReturnZero else k (data ! offset) (offset + 1))"

definition modrm_operands ::
  "byte \<Rightarrow> byte list \<Rightarrow> nat \<Rightarrow> bool \<Rightarrow> (string \<Rightarrow> string \<Rightarrow> decode_step) \<Rightarrow> decode_step" where
  "modrm_operands modrm data offset rexW k =
     (case decodeModRMDetailed modrm (drop offset data) rexW of
        Inl p \<Rightarrow> Panics p
      | Inr (dest, src) \<Rightarrow> k dest src)"

text \<open>
  The most frequent case body: guard, ModR/M byte, mnemonic and category (already set in
  \<open>inst\<close>), operand strings, \<open>inst.Operands = ...\<close>.  No displacement byte is skipped.
\<close>

definition modrm_case ::
  "byte list \<Rightarrow> nat \<Rightarrow> bool \<Rightarrow> Instruction \<Rightarrow> (byte \<Rightarrow> string \<Rightarrow> string \<Rightarrow> string) \<Rightarrow> decode_step" where
  "modrm_case data offset rexW inst operands =
     read_modrm data offset (\<lambda>modrm offset.
       modrm_operands modrm data offset rexW (\<lambda>dest src.
         Continue (inst\<lparr>Operands := operands modrm dest src\<rparr>) offset))"

text \<open>Guard, then an 8-bit (32-bit, 16-bit) immediate that is formatted and skipped.\<close>

definition imm8_case :: "byte list \<Rightarrow> nat \<Rightarrow> Instruction \<Rightarrow> (byte \<Rightarrow> string) \<Rightarrow> decode_step" where
  "imm8_case data offset inst operands =
     need_byte data offset (Continue (inst\<lparr>Operands := operands (data ! offset)\<rparr>) (offset + 1))"

definition imm32_case :: "byte list \<Rightarrow> nat \<Rightarrow> Instruction \<Rightarrow> (32 word \<Rightarrow> string) \<Rightarrow> decode_step" where
  "imm32_case data offset inst operands =
     need_bytes 4 data offset
       (Continue (inst\<lparr>Operands := operands (Uint32 (subslice data offset (offset + 4)))\<rparr>) (offset + 4))"

definition imm16_case :: "byte list \<Rightarrow> nat \<Rightarrow> Instruction \<Rightarrow> (16 word \<Rightarrow> string) \<Rightarrow> decode_step" where
  "imm16_case data offset inst operands =
     need_bytes 2 data offset
       (Continue (inst\<lparr>Operands := operands (Uint16 (subslice data offset (offset + 2)))\<rparr>) (offset + 2))"

text \<open>Guard, then one byte skipped without being looked at.\<close>

definition skip1_case :: "byte list \<Rightarrow> nat \<Rightarrow> Instruction \<Rightarrow> decode_step" where
  "skip1_case data offset inst = need_byte data offset (Continue inst (offset + 1))"

text \<open>Mnemonic and category set together.\<close>

definition named :: "Instruction \<Rightarrow> string \<Rightarrow> InstructionCategory \<Rightarrow> Instruction" where
  "named inst m c = inst\<lparr>Mnemonic := m, Category := c\<rparr>"

definition two_operands :: "string \<Rightarrow> string \<Rightarrow> string" where
  "two_operands a b = a @ '', '' @ b"

text \<open>
  \<open>Jcc rel8\<close> and \<open>JMP rel8\<close>: the target is
  \<open>uint64(int64(addr) + int64(offset+1) + int64(rel))\<close> with \<open>rel := int8(data[offset])\<close>.
\<close>

definition rel8_target :: "64 word \<Rightarrow> nat \<Rightarrow> byte \<Rightarrow> 64 word" where
  "rel8_target addr offset rel = addr + word_of_nat (offset + 1) + scast rel"

definition rel32_target :: "64 word \<Rightarrow> nat \<Rightarrow> 32 word \<Rightarrow> 64 word" where
  "rel32_target addr offset rel = addr + word_of_nat (offset + 4) + scast rel"

text \<open>The loop family \<open>0xE0\<close>-\<open>0xE3\<close>: \<open>target := addr + uint64(rel) + 2\<close>.\<close>

definition loop_target :: "64 word \<Rightarrow> byte \<Rightarrow> 64 word" where
  "loop_target addr rel = addr + scast rel + 2"

definition hex_target :: "64 word \<Rightarrow> string" where
  "hex_target target = ''0x'' @ fmt_x (unat target)"

definition loop_case :: "byte list \<Rightarrow> 64 word \<Rightarrow> nat \<Rightarrow> Instruction \<Rightarrow> string \<Rightarrow> bool \<Rightarrow> decode_step" where
  "loop_case data addr offset inst m conditional =
     need_byte data offset
       (let rel = data ! offset;
            target = loop_target addr rel;
            inst = inst\<lparr>Mnemonic := m, Operands := hex_target target, Category := CatJump\<rparr>;
            inst = (if conditional then inst\<lparr>IsConditional := True\<rparr> else inst)
        in Continue (inst\<lparr>IsBranch := True, BranchTarget := target\<rparr>) (offset + 1))"

text \<open>The x87 cases that only name the opcode byte and print the ModR/M byte.\<close>

definition fpu_case :: "byte list \<Rightarrow> nat \<Rightarrow> Instruction \<Rightarrow> string \<Rightarrow> decode_step" where
  "fpu_case data offset inst m =
     read_modrm data offset (\<lambda>modrm offset.
       Continue (inst\<lparr>Mnemonic := m, Category := CatOther, Operands := ''0x'' @ fmt_02x (unat modrm)\<rparr>) offset)"


text \<open>The nested switch on the second opcode byte after \<open>0x0F\<close>.\<close>

definition decode_two_byte :: "byte list \<Rightarrow> 64 word \<Rightarrow> bool \<Rightarrow> nat \<Rightarrow> Instruction \<Rightarrow> decode_step" where
  "decode_two_byte data addr rexW offset inst =
     need_byte data offset
      (let opcode2 = data ! offset; offset = offset + 1 in
       if opcode2 \<in> set [0x80, 0x81, 0x82, 0x83, 0x84, 0x85, 0x86, 0x87, 0x88, 0x89, 0x8A, 0x8B, 0x8C, 0x8D, 0x8E, 0x8F] then
         need_bytes 4 data offset
          (let rel = Uint32 (subslice data offset (offset + 4));
               target = rel32_target addr offset rel
           in Continue (inst\<lparr>Mnemonic := jccMnemonic (opcode2 - 0x10), Operands := hex_target target,
                              Category := CatJump, IsConditional := True, IsBranch := True,
                              BranchTarget := target, FallsThrough := True\<rparr>) (offset + 4))
       else if opcode2 \<in> set [0x90, 0x91, 0x92, 0x93, 0x94, 0x95, 0x96, 0x97, 0x98, 0x99, 0x9A, 0x9B, 0x9C, 0x9D, 0x9E, 0x9F] then
         skip1_case data offset (named inst (''set'' @ drop 1 (jccMnemonic (opcode2 - 0x90))) CatDataTransfer)
       else if opcode2 \<in> set [0x40, 0x41, 0x42, 0x43, 0x44, 0x45, 0x46, 0x47, 0x48, 0x49, 0x4A, 0x4B, 0x4C, 0x4D, 0x4E, 0x4F] then
         skip1_case data offset (named inst (''cmov'' @ drop 1 (jccMnemonic (opcode2 - 0x40))) CatDataTransfer)
       else if opcode2 \<in> set [0xB6, 0xB7] then skip1_case data offset (named inst ''movzx'' CatDataTransfer)
       else if opcode2 \<in> set [0xBE, 0xBF] then skip1_case data offset (named inst ''movsx'' CatDataTransfer)
       else if opcode2 \<in> set [0xBC, 0xBD] then
         skip1_case data offset (named inst (if opcode2 = 0xBC then ''bsf'' else ''bsr'') CatLogical)
       else if opcode2 = 0xA3 then Continue (named inst ''bt'' CatLogical) offset
       else if opcode2 = 0xAB then Continue (named inst ''bts'' CatLogical) offset
       else if opcode2 = 0xB3 then Continue (named inst ''btr'' CatLogical) offset
       else if opcode2 = 0xBB then Continue (named inst ''btc'' CatLogical) offset
       else if opcode2 = 0xAF then skip1_case data offset (named inst ''imul'' CatArithmetic)
       else if opcode2 \<in> set [0xC0, 0xC1] then skip1_case data offset (named inst ''xadd'' CatArithmetic)
       else if opcode2 \<in> set [0xB0, 0xB1] then skip1_case data offset (named inst ''cmpxchg'' CatArithmetic)
       else if opcode2 \<in> set [0xC8, 0xC9, 0xCA, 0xCB, 0xCC, 0xCD, 0xCE, 0xCF] then
         Continue (inst\<lparr>Mnemonic := ''bswap'', Operands := regName64 (unat (opcode2 - 0xC8)) rexW,
                         Category := CatDataTransfer\<rparr>) offset
       else if opcode2 \<in> set [0x6E, 0x7E] then skip1_case data offset (named inst ''movd'' CatDataTransfer)
       else if opcode2 \<in> set [0x10, 0x11, 0x28, 0x29] then
         skip1_case data offset
           (named inst (if opcode2 = 0x10 \<or> opcode2 = 0x11 then ''movups'' else ''movaps'') CatDataTransfer)
       else if opcode2 = 0x57 then skip1_case data offset (named inst ''xorps'' CatLogical)
       else if opcode2 \<in> set [0x58, 0x59, 0x5C, 0x5D, 0x5E, 0x5F] then
         skip1_case data offset
           (named inst (if opcode2 = 0x58 then ''addps'' else if opcode2 = 0x59 then ''mulps''
                        else if opcode2 = 0x5C then ''subps'' else if opcode2 = 0x5D then ''minps''
                        else if opcode2 = 0x5E then ''divps'' else if opcode2 = 0x5F then ''maxps''
                        else Mnemonic inst) CatArithmetic)
       else if opcode2 \<in> set [0x74, 0x75, 0x76] then skip1_case data offset (named inst ''pcmpeq'' CatCompare)
       else if opcode2 = 0xC3 then skip1_case data offset (named inst ''movnti'' CatDataTransfer)
       else if opcode2 = 0x18 then skip1_case data offset (named inst ''prefetch'' CatOther)
       else if opcode2 = 0x0B then Continue (named inst ''ud2'' CatInterrupt) offset
       else if opcode2 = 0xAE then
         need_byte data offset
          (let modrm = data ! offset;
               reg = drop_bit 3 modrm AND 0x7
           in Continue (named inst (if reg = 5 then ''lfence'' else if reg = 6 then ''mfence''
                                    else if reg = 7 then ''sfence'' else ''0f_ae'') CatOther) (offset + 1))
       else if opcode2 \<in> set [0x1F, 0x0D] then
         Continue (named inst ''nop'' CatNop) (if offset < length data then offset + 1 else offset)
       else Continue (named inst (''0f_'' @ fmt_02x (unat opcode2)) CatUnknown) offset)"


text \<open>
  The operand order of the two-register forms: \<open>if opcode&0x02 != 0\<close> the register
  operand comes first.
\<close>

definition directed :: "byte \<Rightarrow> string \<Rightarrow> string \<Rightarrow> string" where
  "directed opcode dest src =
     (if opcode AND 0x02 \<noteq> 0 then two_operands src dest else two_operands dest src)"

definition imm_hex :: "string \<Rightarrow> nat \<Rightarrow> string" where
  "imm_hex what v = what @ '', 0x'' @ fmt_x v"

definition sregs :: "string list" where
  "sregs = [''es'', ''cs'', ''ss'', ''ds'', ''fs'', ''gs'', ''seg6'', ''seg7'']"

text \<open>Group 1 (\<open>0x80\<close>-\<open>0x83\<close>): the operation is selected by the \<open>reg\<close> field.\<close>

definition group1_mnemonic :: "byte \<Rightarrow> string" where
  "group1_mnemonic reg =
     (if reg = 0 then ''add'' else if reg = 1 then ''or'' else if reg = 2 then ''adc''
      else if reg = 3 then ''sbb'' else if reg = 4 then ''and'' else if reg = 5 then ''sub''
      else if reg = 6 then ''xor'' else if reg = 7 then ''cmp'' else [])"

definition group1_category :: "string \<Rightarrow> InstructionCategory" where
  "group1_category mnemonic =
     (if mnemonic = ''cmp'' then CatCompare
      else if mnemonic = ''and'' \<or> mnemonic = ''or'' \<or> mnemonic = ''xor'' then CatLogical
      else CatArithmetic)"

definition group1_case :: "byte list \<Rightarrow> bool \<Rightarrow> byte \<Rightarrow> nat \<Rightarrow> Instruction \<Rightarrow> decode_step" where
  "group1_case data rexW opcode offset inst =
     read_modrm data offset (\<lambda>modrm offset.
       let reg = drop_bit 3 modrm AND 0x7;
           mnemonic = group1_mnemonic reg;
           inst = named inst mnemonic (group1_category mnemonic)
       in modrm_operands modrm data offset rexW (\<lambda>dest _.
            if opcode = 0x80 \<or> opcode = 0x82 then
              need_byte data offset
                (Continue (inst\<lparr>Operands := imm_hex dest (unat (ucast (data ! offset) :: 32 word))\<rparr>)
                   (offset + 1))
            else if opcode = 0x83 then
              need_byte data offset
                (Continue (inst\<lparr>Operands := imm_hex dest (unat (scast (data ! offset) :: 32 word))\<rparr>)
                   (offset + 1))
            else
              need_bytes 4 data offset
                (Continue (inst\<lparr>Operands := imm_hex dest (unat (Uint32 (subslice data offset (offset + 4))))\<rparr>)
                   (offset + 4))))"

text \<open>Shift and rotate group (\<open>0xC0\<close>, \<open>0xC1\<close>, \<open>0xD0\<close>-\<open>0xD3\<close>).\<close>

definition shift_case :: "byte list \<Rightarrow> byte \<Rightarrow> nat \<Rightarrow> Instruction \<Rightarrow> decode_step" where
  "shift_case data opcode offset inst =
     read_modrm data offset (\<lambda>modrm offset.
       let reg = drop_bit 3 modrm AND 0x7;
           m = (if reg = 0 then ''rol'' else if reg = 1 then ''ror'' else if reg = 2 then ''rcl''
                else if reg = 3 then ''rcr'' else if reg = 4 then ''shl'' else if reg = 5 then ''shr''
                else if reg = 7 then ''sar'' else ''shift_op'')
       in Continue (named inst m CatLogical)
            (if opcode = 0xC0 \<or> opcode = 0xC1
             then (if offset < length data then offset + 1 else offset)
             else offset))"

text \<open>
  Group 3 (\<open>0xF6\<close>, \<open>0xF7\<close>).  For \<open>TEST\<close> (\<open>reg\<close> 0 or 1) the immediate is skipped
  with \<open>offset++\<close> or \<open>offset += 4\<close>; there is no length check before it.
\<close>

definition group3_case :: "byte list \<Rightarrow> byte \<Rightarrow> nat \<Rightarrow> Instruction \<Rightarrow> decode_step" where
  "group3_case data opcode offset inst =
     read_modrm data offset (\<lambda>modrm offset.
       let reg = drop_bit 3 modrm AND 0x7 in
       if reg = 0 \<or> reg = 1 then
         Continue (named inst ''test'' CatCompare) (if opcode = 0xF6 then offset + 1 else offset + 4)
       else if reg = 2 then Continue (named inst ''not'' CatLogical) offset
       else if reg = 3 then Continue (named inst ''neg'' CatArithmetic) offset
       else if reg = 4 then Continue (named inst ''mul'' CatArithmetic) offset
       else if reg = 5 then Continue (named inst ''imul'' CatArithmetic) offset
       else if reg = 6 then Continue (named inst ''div'' CatArithmetic) offset
       else if reg = 7 then Continue (named inst ''idiv'' CatArithmetic) offset
       else Continue inst offset)"

text \<open>Group 5 (\<open>0xFF\<close>): \<open>INC\<close>, \<open>DEC\<close>, indirect \<open>CALL\<close> and \<open>JMP\<close>.\<close>

definition group5_case :: "byte list \<Rightarrow> nat \<Rightarrow> Instruction \<Rightarrow> decode_step" where
  "group5_case data offset inst =
     read_modrm data offset (\<lambda>modrm offset.
       let reg = drop_bit 3 modrm AND 0x7 in
       if reg = 0 \<or> reg = 1 then
         Continue (named inst (if reg = 0 then ''inc'' else ''dec'') CatArithmetic) offset
       else if reg = 2 then Continue ((named inst ''call'' CatCall)\<lparr>FallsThrough := True\<rparr>) offset
       else if reg = 4 then Continue ((named inst ''jmp'' CatJump)\<lparr>IsBranch := True\<rparr>) offset
       else Continue (inst\<lparr>Mnemonic := ''ff_op''\<rparr>) offset)"

text \<open>
  \<open>0xC4\<close> and \<open>0xC5\<close>: a VEX prefix when the next byte is at least \<open>0xC0\<close> (then
  \<open>vex_len\<close> bytes are skipped unchecked), otherwise \<open>LES\<close>/\<open>LDS\<close> with a ModR/M byte.
\<close>

definition vex_case :: "byte list \<Rightarrow> bool \<Rightarrow> nat \<Rightarrow> Instruction \<Rightarrow> string \<Rightarrow> string \<Rightarrow> nat \<Rightarrow> string \<Rightarrow> decode_step" where
  "vex_case data rexW offset inst lone vex vex_len legacy =
     (if offset \<ge> length data then Continue (named inst lone CatOther) offset
      else if data ! offset \<ge> 0xC0 then Continue (named inst vex CatOther) (offset + vex_len)
      else
        (let modrm = data ! offset; offset = offset + 1 in
         modrm_operands modrm data offset rexW (\<lambda>dest src.
           Continue ((named inst legacy CatDataTransfer)\<lparr>Operands := two_operands dest src\<rparr>) offset)))"

text \<open>\<open>0xD9\<close>: a few register forms are named, memory forms are \<open>fld\<close>.\<close>

definition fpu_d9_case :: "byte list \<Rightarrow> bool \<Rightarrow> nat \<Rightarrow> Instruction \<Rightarrow> decode_step" where
  "fpu_d9_case data rexW offset inst =
     read_modrm data offset (\<lambda>modrm offset.
       if modrm \<ge> 0xC0 then
         Continue
           ((if modrm = 0xE0 then inst\<lparr>Mnemonic := ''fchs''\<rparr>
             else if modrm = 0xE1 then inst\<lparr>Mnemonic := ''fabs''\<rparr>
             else if modrm = 0xE4 then inst\<lparr>Mnemonic := ''ftst''\<rparr>
             else if modrm = 0xE8 then inst\<lparr>Mnemonic := ''fld1''\<rparr>
             else if modrm = 0xE9 then inst\<lparr>Mnemonic := ''fldl2t''\<rparr>
             else if modrm = 0xEA then inst\<lparr>Mnemonic := ''fldl2e''\<rparr>
             else if modrm = 0xEB then inst\<lparr>Mnemonic := ''fldpi''\<rparr>
             else if modrm = 0xEC then inst\<lparr>Mnemonic := ''fldlg2''\<rparr>
             else if modrm = 0xED then inst\<lparr>Mnemonic := ''fldln2''\<rparr>
             else if modrm = 0xEE then inst\<lparr>Mnemonic := ''fldz''\<rparr>
             else inst\<lparr>Mnemonic := ''fpu_d9'', Operands := ''0x'' @ fmt_02x (unat modrm)\<rparr>)
            \<lparr>Category := CatOther\<rparr>) offset
       else
         modrm_operands modrm data offset rexW (\<lambda>dest _.
           Continue (inst\<lparr>Mnemonic := ''fld'', Operands := dest, Category := CatOther\<rparr>) offset))"

text \<open>
  The opcode switch of \<open>EnhancedDecodeInstruction\<close>, in the order of the source;
  \<open>offset\<close> is the offset after the opcode byte.
\<close>

definition decode_opcode ::
  "byte list \<Rightarrow> 64 word \<Rightarrow> bool \<Rightarrow> bool \<Rightarrow> byte \<Rightarrow> nat \<Rightarrow> Instruction \<Rightarrow> decode_step" where
  "decode_opcode data addr is64bit rexW opcode offset inst =
     (if opcode \<in> set [0x50, 0x51, 0x52, 0x53, 0x54, 0x55, 0x56, 0x57] then
        (let r = regName64 (unat (opcode - 0x50)) rexW in
         Continue (inst\<lparr>Mnemonic := ''push'', Operands := r, Category := CatStack, RegsRead := [r]\<rparr>) offset)
      else if opcode \<in> set [0x58, 0x59, 0x5A, 0x5B, 0x5C, 0x5D, 0x5E, 0x5F] then
        (let r = regName64 (unat (opcode - 0x58)) rexW in
         Continue (inst\<lparr>Mnemonic := ''pop'', Operands := r, Category := CatStack, RegsWritten := [r]\<rparr>) offset)
      else if opcode \<in> set [0x88, 0x89, 0x8A, 0x8B] then
        modrm_case data offset rexW (named inst ''mov'' CatDataTransfer) (\<lambda>_. directed opcode)
      else if opcode \<in> set [0xB0, 0xB1, 0xB2, 0xB3, 0xB4, 0xB5, 0xB6, 0xB7] then
        imm8_case data offset (named inst ''mov'' CatDataTransfer)
          (\<lambda>b. imm_hex (regName8 (unat (opcode - 0xB0))) (unat b))
      else if opcode \<in> set [0xB8, 0xB9, 0xBA, 0xBB, 0xBC, 0xBD, 0xBE, 0xBF] then
        imm32_case data offset (named inst ''mov'' CatDataTransfer)
          (\<lambda>imm. imm_hex (regName64 (unat (opcode - 0xB8)) rexW) (unat imm))
      else if opcode \<in> set [0x01, 0x03] then
        modrm_case data offset rexW (named inst ''add'' CatArithmetic) (\<lambda>_. directed opcode)
      else if opcode \<in> set [0x29, 0x2B] then
        modrm_case data offset rexW (named inst ''sub'' CatArithmetic) (\<lambda>_. directed opcode)
      else if opcode \<in> set [0x21, 0x23] then
        modrm_case data offset rexW (named inst ''and'' CatLogical) (\<lambda>_. directed opcode)
      else if opcode \<in> set [0x09, 0x0B] then
        modrm_case data offset rexW (named inst ''or'' CatLogical) (\<lambda>_. directed opcode)
      else if opcode \<in> set [0x31, 0x33] then
        modrm_case data offset rexW (named inst ''xor'' CatLogical) (\<lambda>_. directed opcode)
      else if opcode \<in> set [0x39, 0x3B] then
        modrm_case data offset rexW (named inst ''cmp'' CatCompare) (\<lambda>_. directed opcode)
      else if opcode = 0x85 then
        modrm_case data offset rexW (named inst ''test'' CatCompare) (\<lambda>_. two_operands)
      else if opcode = 0xE9 then
        need_bytes 4 data offset
         (let rel = Uint32 (subslice data offset (offset + 4));
              target = rel32_target addr offset rel
          in Continue (inst\<lparr>Mnemonic := ''jmp'', Operands := hex_target target, Category := CatJump,
                             IsBranch := True, BranchTarget := target\<rparr>) (offset + 4))
      else if opcode = 0xEB then
        need_byte data offset
         (let rel = data ! offset;
              target = rel8_target addr offset rel
          in Continue (inst\<lparr>Mnemonic := ''jmp'', Operands := hex_target target, Category := CatJump,
                             IsBranch := True, BranchTarget := target\<rparr>) (offset + 1))
      else if opcode \<in> set [0x70, 0x71, 0x72, 0x73, 0x74, 0x75, 0x76, 0x77, 0x78, 0x79, 0x7A, 0x7B, 0x7C, 0x7D, 0x7E, 0x7F] then
        need_byte data offset
         (let rel = data ! offset;
              target = rel8_target addr offset rel
          in Continue (inst\<lparr>Mnemonic := jccMnemonic opcode, Operands := hex_target target,
                             Category := CatJump, IsConditional := True, IsBranch := True,
                             BranchTarget := target, FallsThrough := True\<rparr>) (offset + 1))
      else if opcode = 0x0F then decode_two_byte data addr rexW offset inst
      else if opcode = 0xE8 then
        need_bytes 4 data offset
         (let rel = Uint32 (subslice data offset (offset + 4));
              target = rel32_target addr offset rel
          in Continue (inst\<lparr>Mnemonic := ''call'', Operands := hex_target target, Category := CatCall,
                             IsBranch := True, BranchTarget := target, FallsThrough := True\<rparr>) (offset + 4))
      else if opcode = 0xFF then group5_case data offset inst
      else if opcode = 0xC3 then Continue (named inst ''ret'' CatReturn) offset
      else if opcode = 0xC2 then
        imm16_case data offset (named inst ''ret'' CatReturn) (\<lambda>imm. ''0x'' @ fmt_x (unat imm))
      else if opcode = 0x8D then
        modrm_case data offset rexW (named inst ''lea'' CatDataTransfer) (\<lambda>_. two_operands)
      else if opcode = 0x90 then Continue (named inst ''nop'' CatNop) offset
      else if opcode = 0xA4 then Continue (named inst ''movsb'' CatDataTransfer) offset
      else if opcode = 0xA5 then Continue (named inst ''movs'' CatDataTransfer) offset
      else if opcode = 0xA6 then Continue (named inst ''cmpsb'' CatCompare) offset
      else if opcode = 0xA7 then Continue (named inst ''cmps'' CatCompare) offset
      else if opcode = 0xAA then Continue (named inst ''stosb'' CatDataTransfer) offset
      else if opcode = 0xAB then Continue (named inst ''stos'' CatDataTransfer) offset
      else if opcode = 0xAC then Continue (named inst ''lodsb'' CatDataTransfer) offset
      else if opcode = 0xAD then Continue (named inst ''lods'' CatDataTransfer) offset
      else if opcode = 0xAE then Continue (named inst ''scasb'' CatCompare) offset
      else if opcode = 0xAF then Continue (named inst ''scas'' CatCompare) offset
      else if opcode \<in> set [0x40, 0x41, 0x42, 0x43, 0x44, 0x45, 0x46, 0x47] then
        (if \<not> is64bit
         then Continue (inst\<lparr>Mnemonic := ''inc'', Operands := regName64 (unat (opcode - 0x40)) False,
                              Category := CatArithmetic\<rparr>) offset
         else Continue (named inst ''rex'' CatOther) offset)
      else if opcode = 0x48 then
        (if \<not> is64bit
         then Continue (inst\<lparr>Mnemonic := ''dec'', Operands := ''eax'', Category := CatArithmetic\<rparr>) offset
         else Continue inst offset)
      else if opcode \<in> set [0x86, 0x87] then
        modrm_case data offset rexW (named inst ''xchg'' CatDataTransfer) (\<lambda>_. two_operands)
      else if opcode \<in> set [0x91, 0x92, 0x93, 0x94, 0x95, 0x96, 0x97] then
        Continue (inst\<lparr>Mnemonic := ''xchg'',
                       Operands := two_operands (regName64 0 rexW) (regName64 (unat (opcode - 0x90)) rexW),
                       Category := CatDataTransfer\<rparr>) offset
      else if opcode = 0x9E then Continue (named inst ''sahf'' CatDataTransfer) offset
      else if opcode = 0x9F then Continue (named inst ''lahf'' CatDataTransfer) offset
      else if opcode = 0x98 then
        Continue (named inst (if rexW then ''cdqe'' else ''cwde'') CatDataTransfer) offset
      else if opcode = 0x99 then
        Continue (named inst (if rexW then ''cqo'' else ''cdq'') CatDataTransfer) offset
      else if opcode \<in> set [0xC0, 0xC1, 0xD0, 0xD1, 0xD2, 0xD3] then shift_case data opcode offset inst
      else if opcode \<in> set [0xF6, 0xF7] then group3_case data opcode offset inst
      else if opcode = 0xC8 then
        (if offset + 2 < length data then Continue (named inst ''enter'' CatStack) (offset + 3)
         else Continue inst offset)
      else if opcode = 0xC9 then Continue (named inst ''leave'' CatStack) offset
      else if opcode = 0xF4 then Continue (named inst ''hlt'' CatInterrupt) offset
      else if opcode = 0x9B then Continue (named inst ''wait'' CatOther) offset
      else if opcode = 0x9C then Continue (named inst ''pushf'' CatStack) offset
      else if opcode = 0x9D then Continue (named inst ''popf'' CatStack) offset
      else if opcode = 0xF8 then Continue (named inst ''clc'' CatOther) offset
      else if opcode = 0xF9 then Continue (named inst ''stc'' CatOther) offset
      else if opcode = 0xFA then Continue (named inst ''cli'' CatOther) offset
      else if opcode = 0xFB then Continue (named inst ''sti'' CatOther) offset
      else if opcode = 0xFC then Continue (named inst ''cld'' CatOther) offset
      else if opcode = 0xFD then Continue (named inst ''std'' CatOther) offset
      else if opcode = 0xCC then
        Continue (inst\<lparr>Mnemonic := ''int'', Operands := ''3'', Category := CatInterrupt\<rparr>) offset
      else if opcode = 0xCD then
        imm8_case data offset (named inst ''int'' CatInterrupt) (\<lambda>b. ''0x'' @ fmt_x (unat b))
      else if opcode = 0xCE then Continue (named inst ''into'' CatInterrupt) offset
      else if opcode = 0xCF then Continue (named inst ''iret'' CatReturn) offset
      else if opcode = 0x00 then
        modrm_case data offset rexW (named inst ''add'' CatArithmetic) (\<lambda>_ dest src. two_operands dest src)
      else if opcode = 0x02 then
        modrm_case data offset rexW (named inst ''add'' CatArithmetic) (\<lambda>_ dest src. two_operands src dest)
      else if opcode = 0x08 then
        modrm_case data offset rexW (named inst ''or'' CatLogical) (\<lambda>_ dest src. two_operands dest src)
      else if opcode = 0x0A then
        modrm_case data offset rexW (named inst ''or'' CatLogical) (\<lambda>_ dest src. two_operands src dest)
      else if opcode \<in> set [0x10, 0x11] then
        modrm_case data offset rexW (named inst ''adc'' CatArithmetic) (\<lambda>_ dest src. two_operands dest src)
      else if opcode \<in> set [0x12, 0x13] then
        modrm_case data offset rexW (named inst ''adc'' CatArithmetic) (\<lambda>_ dest src. two_operands src dest)
      else if opcode \<in> set [0x18, 0x19] then
        modrm_case data offset rexW (named inst ''sbb'' CatArithmetic) (\<lambda>_ dest src. two_operands dest src)
      else if opcode \<in> set [0x1A, 0x1B] then
        modrm_case data offset rexW (named inst ''sbb'' CatArithmetic) (\<lambda>_ dest src. two_operands src dest)
      else if opcode = 0x20 then
        modrm_case data offset rexW (named inst ''and'' CatLogical) (\<lambda>_ dest src. two_operands dest src)
      else if opcode = 0x22 then
        modrm_case data offset rexW (named inst ''and'' CatLogical) (\<lambda>_ dest src. two_operands src dest)
      else if opcode = 0x28 then
        modrm_case data offset rexW (named inst ''sub'' CatArithmetic) (\<lambda>_ dest src. two_operands dest src)
      else if opcode = 0x2A then
        modrm_case data offset rexW (named inst ''sub'' CatArithmetic) (\<lambda>_ dest src. two_operands src dest)
      else if opcode = 0x30 then
        modrm_case data offset rexW (named inst ''xor'' CatLogical) (\<lambda>_ dest src. two_operands dest src)
      else if opcode = 0x32 then
        modrm_case data offset rexW (named inst ''xor'' CatLogical) (\<lambda>_ dest src. two_operands src dest)
      else if opcode = 0x38 then
        modrm_case data offset rexW (named inst ''cmp'' CatCompare) (\<lambda>_ dest src. two_operands dest src)
      else if opcode = 0x3A then
        modrm_case data offset rexW (named inst ''cmp'' CatCompare) (\<lambda>_ dest src. two_operands src dest)
      else if opcode \<in> set [0x80, 0x81, 0x82, 0x83] then group1_case data rexW opcode offset inst
      else if opcode = 0x04 then
        imm8_case data offset (named inst ''add'' CatArithmetic) (\<lambda>b. imm_hex ''al'' (unat b))
      else if opcode = 0x0C then
        imm8_case data offset (named inst ''or'' CatLogical) (\<lambda>b. imm_hex ''al'' (unat b))
      else if opcode = 0x14 then
        imm8_case data offset (named inst ''adc'' CatArithmetic) (\<lambda>b. imm_hex ''al'' (unat b))
      else if opcode = 0x1C then
        imm8_case data offset (named inst ''sbb'' CatArithmetic) (\<lambda>b. imm_hex ''al'' (unat b))
      else if opcode = 0x24 then
        imm8_case data offset (named inst ''and'' CatLogical) (\<lambda>b. imm_hex ''al'' (unat b))
      else if opcode = 0x2C then
        imm8_case data offset (named inst ''sub'' CatArithmetic) (\<lambda>b. imm_hex ''al'' (unat b))
      else if opcode = 0x34 then
        imm8_case data offset (named inst ''xor'' CatLogical) (\<lambda>b. imm_hex ''al'' (unat b))
      else if opcode = 0x3C then
        imm8_case data offset (named inst ''cmp'' CatCompare) (\<lambda>b. imm_hex ''al'' (unat b))
      else if opcode = 0x05 then
        imm32_case data offset (named inst ''add'' CatArithmetic) (\<lambda>imm. imm_hex ''eax'' (unat imm))
      else if opcode = 0x0D then
        imm32_case data offset (named inst ''or'' CatLogical) (\<lambda>imm. imm_hex ''eax'' (unat imm))
      else if opcode = 0x25 then
        imm32_case data offset (named inst ''and'' CatLogical) (\<lambda>imm. imm_hex ''eax'' (unat imm))
      else if opcode = 0x2D then
        imm32_case data offset (named inst ''sub'' CatArithmetic) (\<lambda>imm. imm_hex ''eax'' (unat imm))
      else if opcode = 0x35 then
        imm32_case data offset (named inst ''xor'' CatLogical) (\<lambda>imm. imm_hex ''eax'' (unat imm))
      else if opcode = 0x3D then
        imm32_case data offset (named inst ''cmp'' CatCompare) (\<lambda>imm. imm_hex ''eax'' (unat imm))
      else if opcode = 0x15 then
        imm32_case data offset (named inst ''adc'' CatArithmetic) (\<lambda>imm. imm_hex ''eax'' (unat imm))
      else if opcode = 0x1D then
        imm32_case data offset (named inst ''sbb'' CatArithmetic) (\<lambda>imm. imm_hex ''eax'' (unat imm))
      else if opcode = 0x84 then
        modrm_case data offset rexW (named inst ''test'' CatCompare) (\<lambda>_. two_operands)
      else if opcode = 0xC6 then
        read_modrm data offset (\<lambda>modrm offset.
          modrm_operands modrm data offset rexW (\<lambda>dest _.
            need_byte data offset
              (Continue ((named inst ''mov'' CatDataTransfer)\<lparr>Operands := imm_hex dest (unat (data ! offset))\<rparr>)
                 (offset + 1))))
      else if opcode = 0xC7 then
        read_modrm data offset (\<lambda>modrm offset.
          modrm_operands modrm data offset rexW (\<lambda>dest _.
            need_bytes 4 data offset
              (Continue ((named inst ''mov'' CatDataTransfer)
                          \<lparr>Operands := imm_hex dest (unat (Uint32 (subslice data offset (offset + 4))))\<rparr>)
                 (offset + 4))))
      else if opcode = 0x68 then
        imm32_case data offset (named inst ''push'' CatStack) (\<lambda>imm. ''0x'' @ fmt_x (unat imm))
      else if opcode = 0x6A then
        imm8_case data offset (named inst ''push'' CatStack) (\<lambda>b. ''0x'' @ fmt_x_int8 b)
      else if opcode = 0x06 then
        Continue (inst\<lparr>Mnemonic := ''push'', Operands := ''es'', Category := CatStack\<rparr>) offset
      else if opcode = 0x07 then
        Continue (inst\<lparr>Mnemonic := ''pop'', Operands := ''es'', Category := CatStack\<rparr>) offset
      else if opcode = 0x0E then
        Continue (inst\<lparr>Mnemonic := ''push'', Operands := ''cs'', Category := CatStack\<rparr>) offset
      else if opcode = 0x16 then
        Continue (inst\<lparr>Mnemonic := ''push'', Operands := ''ss'', Category := CatStack\<rparr>) offset
      else if opcode = 0x17 then
        Continue (inst\<lparr>Mnemonic := ''pop'', Operands := ''ss'', Category := CatStack\<rparr>) offset
      else if opcode = 0x1E then
        Continue (inst\<lparr>Mnemonic := ''push'', Operands := ''ds'', Category := CatStack\<rparr>) offset
      else if opcode = 0x1F then
        Continue (inst\<lparr>Mnemonic := ''pop'', Operands := ''ds'', Category := CatStack\<rparr>) offset
      else if opcode = 0x69 then
        read_modrm data offset (\<lambda>modrm offset.
          modrm_operands modrm data offset rexW (\<lambda>dest src.
            need_bytes 4 data offset
              (Continue ((named inst ''imul'' CatArithmetic)
                          \<lparr>Operands := dest @ '', '' @ src @ '', 0x''
                                        @ fmt_x (unat (Uint32 (subslice data offset (offset + 4))))\<rparr>)
                 (offset + 4))))
      else if opcode = 0x6B then
        read_modrm data offset (\<lambda>modrm offset.
          modrm_operands modrm data offset rexW (\<lambda>dest src.
            need_byte data offset
              (Continue ((named inst ''imul'' CatArithmetic)
                          \<lparr>Operands := dest @ '', '' @ src @ '', 0x'' @ fmt_x_int8 (data ! offset)\<rparr>)
                 (offset + 1))))
      else if opcode = 0xFE then
        read_modrm data offset (\<lambda>modrm offset.
          let reg = drop_bit 3 modrm AND 0x7;
              m = (if reg = 0 then ''inc'' else if reg = 1 then ''dec'' else ''fe_op'')
          in modrm_operands modrm data offset rexW (\<lambda>dest _.
               Continue ((named inst m CatArithmetic)\<lparr>Operands := dest\<rparr>) offset))
      else if opcode = 0xE0 then loop_case data addr offset inst ''loopne'' False
      else if opcode = 0xE1 then loop_case data addr offset inst ''loope'' False
      else if opcode = 0xE2 then loop_case data addr offset inst ''loop'' False
      else if opcode = 0xE3 then loop_case data addr offset inst ''jrcxz'' True
      else if opcode = 0x60 then Continue (named inst ''pusha'' CatStack) offset
      else if opcode = 0x61 then Continue (named inst ''popa'' CatStack) offset
      else if opcode = 0x62 then
        modrm_case data offset rexW (named inst ''bound'' CatOther) (\<lambda>_. two_operands)
      else if opcode = 0x63 then
        modrm_case data offset rexW (named inst (if rexW then ''movsxd'' else ''arpl'') CatDataTransfer)
          (\<lambda>_. two_operands)
      else if opcode = 0x6C then Continue (named inst ''insb'' CatOther) offset
      else if opcode = 0x6D then Continue (named inst ''insd'' CatOther) offset
      else if opcode = 0x6E then Continue (named inst ''outsb'' CatOther) offset
      else if opcode = 0x6F then Continue (named inst ''outsd'' CatOther) offset
      else if opcode = 0x8C then
        modrm_case data offset rexW (named inst ''mov'' CatDataTransfer)
          (\<lambda>modrm dest _. two_operands dest (sregs ! unat (drop_bit 3 modrm AND 0x7)))
      else if opcode = 0x8E then
        modrm_case data offset rexW (named inst ''mov'' CatDataTransfer)
          (\<lambda>modrm _ src. two_operands (sregs ! unat (drop_bit 3 modrm AND 0x7)) src)
      else if opcode = 0x8F then
        modrm_case data offset rexW (named inst ''pop'' CatStack) (\<lambda>_ dest _. dest)
      else if opcode = 0xA8 then
        imm8_case data offset (named inst ''test'' CatCompare) (\<lambda>b. imm_hex ''al'' (unat b))
      else if opcode = 0xA9 then
        imm32_case data offset (named inst ''test'' CatCompare) (\<lambda>imm. imm_hex ''eax'' (unat imm))
      else if opcode = 0xA0 then
        imm32_case data offset (named inst ''mov'' CatDataTransfer)
          (\<lambda>moffs. ''al, [0x'' @ fmt_x (unat moffs) @ '']'')
      else if opcode = 0xA1 then
        imm32_case data offset (named inst ''mov'' CatDataTransfer)
          (\<lambda>moffs. ''eax, [0x'' @ fmt_x (unat moffs) @ '']'')
      else if opcode = 0xA2 then
        imm32_case data offset (named inst ''mov'' CatDataTransfer)
          (\<lambda>moffs. ''[0x'' @ fmt_x (unat moffs) @ ''], al'')
      else if opcode = 0xA3 then
        imm32_case data offset (named inst ''mov'' CatDataTransfer)
          (\<lambda>moffs. ''[0x'' @ fmt_x (unat moffs) @ ''], eax'')
      else if opcode = 0xCA then
        imm16_case data offset (named inst ''retf'' CatReturn) (\<lambda>imm. ''0x'' @ fmt_x (unat imm))
      else if opcode = 0xCB then Continue (named inst ''retf'' CatReturn) offset
      else if opcode = 0x27 then Continue (named inst ''daa'' CatArithmetic) offset
      else if opcode = 0x2F then Continue (named inst ''das'' CatArithmetic) offset
      else if opcode = 0x37 then Continue (named inst ''aaa'' CatArithmetic) offset
      else if opcode = 0x3F then Continue (named inst ''aas'' CatArithmetic) offset
      else if opcode = 0xD4 then
        imm8_case data offset (named inst ''aam'' CatArithmetic) (\<lambda>b. ''0x'' @ fmt_x (unat b))
      else if opcode = 0xD5 then
        imm8_case data offset (named inst ''aad'' CatArithmetic) (\<lambda>b. ''0x'' @ fmt_x (unat b))
      else if opcode = 0xD6 then Continue (named inst ''salc'' CatOther) offset
      else if opcode = 0xD7 then Continue (named inst ''xlat'' CatDataTransfer) offset
      else if opcode = 0x9A then
        need_bytes 6 data offset
         (let offs = Uint32 (subslice data offset (offset + 4));
              seg = Uint16 (subslice data (offset + 4) (offset + 6))
          in Continue (inst\<lparr>Mnemonic := ''callf'',
                             Operands := ''0x'' @ fmt_x (unat seg) @ '':0x'' @ fmt_x (unat offs),
                             Category := CatCall\<rparr>) (offset + 6))
      else if opcode = 0xEA then
        need_bytes 6 data offset
         (let offs = Uint32 (subslice data offset (offset + 4));
              seg = Uint16 (subslice data (offset + 4) (offset + 6))
          in Continue (inst\<lparr>Mnemonic := ''jmpf'',
                             Operands := ''0x'' @ fmt_x (unat seg) @ '':0x'' @ fmt_x (unat offs),
                             Category := CatJump\<rparr>) (offset + 6))
      else if opcode = 0xE4 then
        imm8_case data offset (named inst ''in'' CatOther) (\<lambda>b. imm_hex ''al'' (unat b))
      else if opcode = 0xE5 then
        imm8_case data offset (named inst ''in'' CatOther) (\<lambda>b. imm_hex ''eax'' (unat b))
      else if opcode = 0xE6 then
        imm8_case data offset (named inst ''out'' CatOther) (\<lambda>b. ''0x'' @ fmt_x (unat b) @ '', al'')
      else if opcode = 0xE7 then
        imm8_case data offset (named inst ''out'' CatOther) (\<lambda>b. ''0x'' @ fmt_x (unat b) @ '', eax'')
      else if opcode = 0xEC then
        Continue (inst\<lparr>Mnemonic := ''in'', Operands := ''al, dx'', Category := CatOther\<rparr>) offset
      else if opcode = 0xED then
        Continue (inst\<lparr>Mnemonic := ''in'', Operands := ''eax, dx'', Category := CatOther\<rparr>) offset
      else if opcode = 0xEE then
        Continue (inst\<lparr>Mnemonic := ''out'', Operands := ''dx, al'', Category := CatOther\<rparr>) offset
      else if opcode = 0xEF then
        Continue (inst\<lparr>Mnemonic := ''out'', Operands := ''dx, eax'', Category := CatOther\<rparr>) offset
      else if opcode = 0xF1 then Continue (named inst ''int1'' CatInterrupt) offset
      else if opcode = 0xF5 then Continue (named inst ''cmc'' CatOther) offset
      else if opcode = 0xC4 then vex_case data rexW offset inst ''vex_c4'' ''vex3'' 2 ''les''
      else if opcode = 0xC5 then vex_case data rexW offset inst ''vex_c5'' ''vex2'' 1 ''lds''
      else if opcode = 0xD8 then fpu_case data offset inst ''fpu_d8''
      else if opcode = 0xD9 then fpu_d9_case data rexW offset inst
      else if opcode = 0xDA then fpu_case data offset inst ''fpu_da''
      else if opcode = 0xDB then
        read_modrm data offset (\<lambda>modrm offset.
          Continue ((if modrm = 0xE3 then inst\<lparr>Mnemonic := ''fninit''\<rparr>
                     else inst\<lparr>Mnemonic := ''fpu_db'', Operands := ''0x'' @ fmt_02x (unat modrm)\<rparr>)
                    \<lparr>Category := CatOther\<rparr>) offset)
      else if opcode = 0xDC then fpu_case data offset inst ''fpu_dc''
      else if opcode = 0xDD then fpu_case data offset inst ''fpu_dd''
      else if opcode = 0xDE then fpu_case data offset inst ''fpu_de''
      else if opcode = 0xDF then
        read_modrm data offset (\<lambda>modrm offset.
          Continue ((if modrm = 0xE0 then inst\<lparr>Mnemonic := ''fnstsw'', Operands := ''ax''\<rparr>
                     else inst\<lparr>Mnemonic := ''fpu_df'', Operands := ''0x'' @ fmt_02x (unat modrm)\<rparr>)
                    \<lparr>Category := CatOther\<rparr>) offset)
      else Continue (named inst (''unk_'' @ fmt_02x (unat opcode)) CatUnknown) offset)"

text \<open>
  The end of the function: \<open>inst.Size = offset\<close>, the bytes are recorded only when
  the size does not exceed the input, and \<open>inst, inst.Size\<close> is returned.
\<close>

definition finish_decode :: "byte list \<Rightarrow> decode_step \<Rightarrow> go_panic + (Instruction \<times> nat)" where
  "finish_decode data step =
     (case step of
        Panics p \<Rightarrow> Inl p
      | ReturnZero \<Rightarrow> Inr (Instruction_zero, 0)
      | Continue inst offset \<Rightarrow>
          (let inst = inst\<lparr>Size := offset\<rparr>;
               inst = (if Size inst > 0 \<and> Size inst \<le> length data
                       then inst\<lparr>Bytes := subslice data 0 (Size inst)\<rparr> else inst)
           in Inr (inst, Size inst)))"

definition EnhancedDecodeInstruction ::
  "byte list \<Rightarrow> 64 word \<Rightarrow> string \<Rightarrow> go_panic + (Instruction \<times> nat)" where
  "EnhancedDecodeInstruction data addr arch =
     (if length data = 0 then Inr (Instruction_zero, 0)
      else
        (let inst = Instruction_zero\<lparr>Address := addr\<rparr>;
             is64bit = (arch = ''x86_64'');
             (offset, rexW) = skip_prefixes data is64bit 0
         in if offset \<ge> length data then Inr (Instruction_zero, 0)
            else
              (let opcode = data ! offset; offset = offset + 1
               in finish_decode data (decode_opcode data addr is64bit rexW opcode offset inst))))"



section \<open>The section sweep and the older one-byte decoder\<close>

definition regName :: "byte \<Rightarrow> string \<Rightarrow> string" where
  "regName n arch =
     (if arch = ''x86_64'' \<and> unat n < 8
        then [''rax'', ''rcx'', ''rdx'', ''rbx'', ''rsp'', ''rbp'', ''rsi'', ''rdi''] ! unat n
      else if arch \<noteq> ''x86_64'' \<and> unat n < 8
        then [''eax'', ''ecx'', ''edx'', ''ebx'', ''esp'', ''ebp'', ''esi'', ''edi''] ! unat n
      else ''r'' @ fmt_d (unat n))"

definition decodeModRM :: "byte \<Rightarrow> string" where
  "decodeModRM modrm =
     (let md = drop_bit 6 modrm AND 0x3;
          rm = modrm AND 0x7;
          reg = drop_bit 3 modrm AND 0x7;
          regStr = regName reg ''x86_64'';
          rmStr = regName rm ''x86_64''
      in if md = 0 then regStr @ '', ['' @ rmStr @ '']''
         else if md = 1 then regStr @ '', ['' @ rmStr @ ''+disp8]''
         else if md = 2 then regStr @ '', ['' @ rmStr @ ''+disp32]''
         else if md = 3 then regStr @ '', '' @ rmStr
         else ''?'')"

text \<open>
  \<open>decodeInstruction\<close>, the decoder the sweep falls back to when the pattern decoder
  returns size 0.  Every index it reads is guarded by a length check.
\<close>

definition decodeInstruction :: "byte list \<Rightarrow> 64 word \<Rightarrow> string \<Rightarrow> Instruction \<times> nat" where
  "decodeInstruction data addr arch =
     (if length data = 0 then (Instruction_zero, 0)
      else
        (let inst = Instruction_zero\<lparr>Address := addr\<rparr>;
             sized = (\<lambda>i n. (i\<lparr>Size := n, Bytes := subslice data 0 n\<rparr>, n));
             b0 = data ! 0
         in if b0 = 0x55 then sized (inst\<lparr>Mnemonic := ''push'', Operands := ''rbp''\<rparr>) 1
            else if b0 = 0x48 then
              (if length data < 2 then (Instruction_zero, 0)
               else if data ! 1 = 0x89 \<or> data ! 1 = 0x8b then
                 (if length data < 3 then (Instruction_zero, 0)
                  else sized (inst\<lparr>Mnemonic := ''mov'', Operands := decodeModRM (data ! 2)\<rparr>) 3)
               else sized (inst\<lparr>Mnemonic := ''rex.w+0x'' @ fmt_02x (unat (data ! 1))\<rparr>) 2)
            else if b0 = 0x89 \<or> b0 = 0x8b then
              (if length data < 2 then (Instruction_zero, 0)
               else sized (inst\<lparr>Mnemonic := ''mov'', Operands := decodeModRM (data ! 1)\<rparr>) 2)
            else if b0 = 0xc3 then sized (inst\<lparr>Mnemonic := ''ret''\<rparr>) 1
            else if b0 = 0xe8 then
              (if length data < 5 then (Instruction_zero, 0)
               else
                 (let offset = Uint32 (subslice data 1 5);
                      target = addr + scast offset + 5
                  in sized (inst\<lparr>Mnemonic := ''call'', Operands := hex_target target\<rparr>) 5))
            else if b0 = 0xff then
              (if length data < 2 then (Instruction_zero, 0)
               else
                 (let modrm = data ! 1;
                      reg = drop_bit 3 modrm AND 0x7;
                      inst = (if reg = 2 then inst\<lparr>Mnemonic := ''call''\<rparr>
                              else if reg = 4 then inst\<lparr>Mnemonic := ''jmp''\<rparr> else inst)
                  in sized (inst\<lparr>Operands := decodeModRM modrm\<rparr>) 2))
            else if b0 \<in> set [0x50, 0x51, 0x52, 0x53, 0x54, 0x56, 0x57] then
              sized (inst\<lparr>Mnemonic := ''push'', Operands := regName (b0 - 0x50) arch\<rparr>) 1
            else if b0 \<in> set [0x58, 0x59, 0x5a, 0x5b, 0x5c, 0x5d, 0x5e, 0x5f] then
              sized (inst\<lparr>Mnemonic := ''pop'', Operands := regName (b0 - 0x58) arch\<rparr>) 1
            else if b0 = 0x90 then sized (inst\<lparr>Mnemonic := ''nop''\<rparr>) 1
            else sized (inst\<lparr>Mnemonic := ''db 0x'' @ fmt_02x (unat b0)\<rparr>) 1))"

record Section =
  sec_Name :: string
  sec_Address :: "64 word"
  sec_Size :: "64 word"
  sec_Data :: "byte list"
  sec_Flags :: "32 word"

datatype disasm_result = Panicked go_panic | Failed string | Disassembled "Instruction list"

text \<open>
  The loop of \<open>DisassembleSection\<close>: decode at \<open>data[offset:]\<close>, fall back to the
  older decoder on size 0, skip one byte when that fails too, otherwise append the
  instruction and advance by its size.
\<close>

function sweep :: "byte list \<Rightarrow> 64 word \<Rightarrow> string \<Rightarrow> nat \<Rightarrow> Instruction list \<Rightarrow> disasm_result" where
  "sweep data baseAddr arch offset acc =
     (if offset < length data then
        (case EnhancedDecodeInstruction (drop offset data) (baseAddr + word_of_nat offset) arch of
           Inl p \<Rightarrow> Panicked p
         | Inr (inst, sz) \<Rightarrow>
             (let (inst, sz) =
                    (if sz = 0
                     then decodeInstruction (drop offset data) (baseAddr + word_of_nat offset) arch
                     else (inst, sz))
              in if sz = 0 then sweep data baseAddr arch (offset + 1) acc
                 else sweep data baseAddr arch (offset + sz) (acc @ [inst])))
      else Disassembled acc)"
  by pat_completeness auto
termination
  by (relation "measure (\<lambda>(data, baseAddr, arch, offset, acc). length data - offset)") auto

declare sweep.simps [simp del]

text \<open>
  \<open>DisassembleSection\<close>.  \<open>DisassembleSectionWithCapstone\<close> is a stub that always
  returns an error, so the fallback path is the only one.
\<close>

definition DisassembleSection :: "Section \<Rightarrow> string \<Rightarrow> disasm_result" where
  "DisassembleSection section arch =
     (if arch \<noteq> ''x86_64'' \<and> arch \<noteq> ''x86''
      then Failed (''unsupported architecture: '' @ arch @ '' (currently only x86/x86_64 supported)'')
      else sweep (sec_Data section) (sec_Address section) arch 0 [])"

section \<open>Function discovery\<close>

record Symbol =
  sym_Name :: string
  sym_Address :: "64 word"
  sym_Size :: "64 word"
  sym_Type :: string

record Function =
  Name :: string
  StartAddr :: "64 word"
  EndAddr :: "64 word"
  Instructions :: "Instruction list"
  Calls :: "64 word list"

text \<open>\<open>symbolMap\<close> and \<open>symbolAddrs\<close>: symbols with an empty name are skipped, a later symbol
  at the same address overwrites an earlier one.\<close>

definition symbolMap :: "Symbol list \<Rightarrow> (64 word \<rightharpoonup> string)" where
  "symbolMap symbols =
     fold (\<lambda>sym m. if sym_Name sym \<noteq> [] then m(sym_Address sym \<mapsto> sym_Name sym) else m) symbols Map.empty"

definition symbolAddrs :: "Symbol list \<Rightarrow> 64 word set" where
  "symbolAddrs symbols =
     fold (\<lambda>sym m. if sym_Name sym \<noteq> [] then insert (sym_Address sym) m else m) symbols {}"

definition isPaddingOrData :: "Instruction list \<Rightarrow> nat \<Rightarrow> bool" where
  "isPaddingOrData instructions index =
     (if index \<ge> length instructions then False
      else
        (let inst = instructions ! index in
         if Mnemonic inst = ''int'' \<and> Operands inst = ''3'' then True
         else if Mnemonic inst = ''nop'' then
           (let nopCount = 1 + length (takeWhile (\<lambda>i. Mnemonic i = ''nop'')
                                         (take 9 (drop (index + 1) instructions)))
            in nopCount > 5)
         else False))"

definition isPaddingSequence :: "Instruction list \<Rightarrow> nat \<Rightarrow> nat \<Rightarrow> bool" where
  "isPaddingSequence instructions start count =
     (let paddingCount = length (filter (\<lambda>inst. Mnemonic inst = ''int'' \<or> Mnemonic inst = ''nop'')
                                   (take count (drop start instructions)))
      in paddingCount > count div 2)"

text \<open>The first pass: is instruction \<open>i\<close> marked as a function start?\<close>

definition isStart :: "Instruction list \<Rightarrow> 64 word set \<Rightarrow> nat \<Rightarrow> bool" where
  "isStart instructions symAddrs i =
     (let inst = instructions ! i in
        Address inst \<in> symAddrs
      \<or> (i > 0 \<and> Mnemonic (instructions ! (i - 1)) = ''ret''
           \<and> Mnemonic inst \<noteq> ''nop'' \<and> Mnemonic inst \<noteq> ''int'' \<and> \<not> HasPrefix (Mnemonic inst) ''unk_'')
      \<or> (Mnemonic inst = ''push'' \<and> (Operands inst = ''rbp'' \<or> Operands inst = ''ebp'')
           \<and> i + 1 < length instructions \<and> \<not> isPaddingSequence instructions i 5)
      \<or> (Mnemonic inst = ''sub'' \<and> Contains (Operands inst) ''rsp''
           \<and> (i = 0 \<or> Category (instructions ! (i - 1)) = CatReturn))
      \<or> (Mnemonic inst = ''mov'' \<and> Contains (Operands inst) ''rsp''
           \<and> (i = 0 \<or> (i > 0 \<and> Category (instructions ! (i - 1)) = CatReturn))))"

definition funcStarts :: "Instruction list \<Rightarrow> Symbol list \<Rightarrow> 64 word set" where
  "funcStarts instructions symbols =
     fold (\<lambda>i starts.
             if isPaddingOrData instructions i then starts
             else if isStart instructions (symbolAddrs symbols) i
                  then insert (Address (instructions ! i)) starts
                  else starts)
          [0..<length instructions] {}"

text \<open>
  The second pass.  The state is the list of functions emitted so far and the open
  function \<open>currentFunc\<close> (\<open>None\<close> for \<open>nil\<close>); appending \<open>*currentFunc\<close> copies it.
\<close>

definition emit :: "Function list \<Rightarrow> Function \<Rightarrow> Function list" where
  "emit functions f = (if length (Instructions f) > 0 then functions @ [f] else functions)"

definition pass2_step ::
  "nat \<Rightarrow> (64 word \<rightharpoonup> string) \<Rightarrow> 64 word set \<Rightarrow> nat \<times> Instruction
     \<Rightarrow> Function list \<times> Function option \<Rightarrow> Function list \<times> Function option" where
  "pass2_step len symMap starts = (\<lambda>(i, inst) (functions, currentFunc).
     let (functions, currentFunc) =
           (if Address inst \<in> starts then
              (let functions = (case currentFunc of
                                  None \<Rightarrow> functions
                                | Some f \<Rightarrow> emit functions (f\<lparr>EndAddr := Address inst - 1\<rparr>));
                   name = (case symMap (Address inst) of None \<Rightarrow> [] | Some n \<Rightarrow> n);
                   name = (if name = [] then ''sub_'' @ fmt_x (unat (Address inst)) else name)
               in (functions,
                   Some \<lparr>Name = name, StartAddr = Address inst, EndAddr = 0, Instructions = [], Calls = []\<rparr>))
            else (functions, currentFunc));
         (functions, currentFunc) =
           (case currentFunc of
              None \<Rightarrow> (functions, None)
            | Some f \<Rightarrow>
                (let f = f\<lparr>Instructions := Instructions f @ [inst]\<rparr>;
                     f = (if Mnemonic inst = ''call'' then f\<lparr>Calls := Calls f @ [Address inst]\<rparr> else f)
                 in if Mnemonic inst = ''ret''
                    then (emit functions (f\<lparr>EndAddr := Address inst\<rparr>), None)
                    else (functions, Some f)))
     in (case currentFunc of
           Some f \<Rightarrow> if i + 1 = len
                     then (emit functions (f\<lparr>EndAddr := Address inst\<rparr>), Some (f\<lparr>EndAddr := Address inst\<rparr>))
                     else (functions, currentFunc)
         | None \<Rightarrow> (functions, currentFunc)))"

definition FindFunctions :: "Instruction list \<Rightarrow> Symbol list \<Rightarrow> Function list" where
  "FindFunctions instructions symbols =
     fst (fold (pass2_step (length instructions) (symbolMap symbols) (funcStarts instructions symbols))
               (zip [0..<length instructions] instructions) ([], None))"


section \<open>Control-flow graphs\<close>

text \<open>
  The blocks of a graph live in the list \<open>cfg.Blocks\<close>.  A \<open>*BasicBlock\<close> is modelled
  as the position of the block in that list and \<open>nil\<close> as \<open>None\<close>; two pointers are
  equal exactly when the positions are.  The edge lists, \<open>LoopHeader\<close> and
  \<open>DominatedBy\<close> hold such positions, so a write through one pointer is seen through
  every alias.  The fields \<open>StartAddr\<close>, \<open>EndAddr\<close> and \<open>Instructions\<close> carry the
  prefix \<open>bb_\<close> because \<open>Function\<close> has fields of the same names.
\<close>

record BasicBlock =
  ID :: nat
  bb_StartAddr :: "64 word"
  bb_EndAddr :: "64 word"
  bb_Instructions :: "Instruction list"
  Successors :: "nat list"
  Predecessors :: "nat list"
  IsEntry :: bool
  IsExit :: bool
  LoopHeader :: "nat option"
  DominatedBy :: "nat option"

record ControlFlowGraph =
  Blocks :: "BasicBlock list"
  EntryBlock :: "nat option"
  ExitBlocks :: "nat list"
  cfg_Function :: Function
  BlockMap :: "64 word \<rightharpoonup> nat"

text \<open>
  \<open>bb.AddSuccessor(succ)\<close>: return if \<open>succ\<close> is already a successor; append it;
  return if \<open>bb\<close> is already a predecessor of \<open>succ\<close>; append it there.
\<close>

definition AddSuccessor :: "BasicBlock list \<Rightarrow> nat \<Rightarrow> nat \<Rightarrow> BasicBlock list" where
  "AddSuccessor blocks bb succ =
     (if succ \<in> set (Successors (blocks ! bb)) then blocks
      else
        (let blocks = blocks[bb := (blocks ! bb)\<lparr>Successors := Successors (blocks ! bb) @ [succ]\<rparr>]
         in if bb \<in> set (Predecessors (blocks ! succ)) then blocks
            else blocks[succ := (blocks ! succ)\<lparr>Predecessors := Predecessors (blocks ! succ) @ [bb]\<rparr>]))"

definition GetLastInstruction :: "BasicBlock \<Rightarrow> Instruction option" where
  "GetLastInstruction bb =
     (if length (bb_Instructions bb) = 0 then None
      else Some (bb_Instructions bb ! (length (bb_Instructions bb) - 1)))"

definition EndsWithReturn :: "BasicBlock \<Rightarrow> bool" where
  "EndsWithReturn bb =
     (case GetLastInstruction bb of None \<Rightarrow> False | Some lastInst \<Rightarrow> Category lastInst = CatReturn)"

definition identifyLeaders :: "Function \<Rightarrow> 64 word set" where
  "identifyLeaders fn =
     (if length (Instructions fn) = 0 then {}
      else
        fold (\<lambda>(i, inst) leaders.
                let leaders = (if IsBranch inst \<and> BranchTarget inst \<noteq> 0
                               then insert (BranchTarget inst) leaders else leaders)
                in if IsControlFlow inst \<and> i + 1 < length (Instructions fn)
                      \<and> (FallsThrough inst \<or> Category inst = CatCall)
                   then insert (Address (Instructions fn ! (i + 1))) leaders
                   else leaders)
             (zip [0..<length (Instructions fn)] (Instructions fn))
             {Address (Instructions fn ! 0)})"

text \<open>
  \<open>createBasicBlocks\<close>: the state of the loop is the list of finished blocks, the
  block under construction and the next block id.
\<close>

definition createBasicBlocks_step ::
  "Function \<Rightarrow> 64 word set \<Rightarrow> nat \<times> Instruction
     \<Rightarrow> BasicBlock list \<times> BasicBlock option \<times> nat \<Rightarrow> BasicBlock list \<times> BasicBlock option \<times> nat" where
  "createBasicBlocks_step fn leaders = (\<lambda>(i, inst) (blocks, currentBlock, blockID).
     let (blocks, currentBlock, blockID) =
           (if Address inst \<in> leaders then
              ((case currentBlock of None \<Rightarrow> blocks | Some b \<Rightarrow> blocks @ [b]),
               Some \<lparr>ID = blockID, bb_StartAddr = Address inst, bb_EndAddr = 0, bb_Instructions = [],
                     Successors = [], Predecessors = [], IsEntry = False, IsExit = False,
                     LoopHeader = None, DominatedBy = None\<rparr>,
               blockID + 1)
            else (blocks, currentBlock, blockID))
     in (case currentBlock of
           None \<Rightarrow> (blocks, currentBlock, blockID)
         | Some b \<Rightarrow>
             (let b = b\<lparr>bb_Instructions := bb_Instructions b @ [inst], bb_EndAddr := Address inst\<rparr>
              in if IsTerminator inst \<and> i + 1 < length (Instructions fn)
                    \<and> Address (Instructions fn ! (i + 1)) \<in> leaders
                 then (blocks @ [b], None, blockID)
                 else (blocks, Some b, blockID))))"

definition createBasicBlocks :: "Function \<Rightarrow> 64 word set \<Rightarrow> BasicBlock list" where
  "createBasicBlocks fn leaders =
     (let (blocks, currentBlock, blockID) =
            fold (createBasicBlocks_step fn leaders)
                 (zip [0..<length (Instructions fn)] (Instructions fn)) ([], None, 0)
      in case currentBlock of None \<Rightarrow> blocks | Some b \<Rightarrow> blocks @ [b])"

text \<open>The body of the loop of \<open>connectBlocks\<close> for block \<open>i\<close>.\<close>

definition connectBlock :: "(64 word \<rightharpoonup> nat) \<Rightarrow> nat \<Rightarrow> BasicBlock list \<Rightarrow> BasicBlock list" where
  "connectBlock blockMap i blocks =
     (case GetLastInstruction (blocks ! i) of
        None \<Rightarrow> blocks
      | Some lastInst \<Rightarrow>
          (if Category lastInst = CatJump then
             (if IsConditional lastInst then
                (let blocks = (case blockMap (BranchTarget lastInst) of
                                 None \<Rightarrow> blocks | Some target \<Rightarrow> AddSuccessor blocks i target)
                 in if i + 1 < length blocks then AddSuccessor blocks i (i + 1) else blocks)
              else
                (case blockMap (BranchTarget lastInst) of
                   None \<Rightarrow> blocks | Some target \<Rightarrow> AddSuccessor blocks i target))
           else if Category lastInst = CatCall then
             (if i + 1 < length blocks then AddSuccessor blocks i (i + 1) else blocks)
           else if Category lastInst = CatReturn then blocks
           else (if i + 1 < length blocks then AddSuccessor blocks i (i + 1) else blocks)))"

definition connectBlocks :: "(64 word \<rightharpoonup> nat) \<Rightarrow> BasicBlock list \<Rightarrow> BasicBlock list" where
  "connectBlocks blockMap blocks = fold (connectBlock blockMap) [0..<length blocks] blocks"

text \<open>
  \<open>intersectDominators\<close>.  The source nests two inner loops in
  \<open>for finger1 != finger2\<close>; each round of the recursion below is one test of the
  loop conditions in the order in which the source reaches them.  The loop has no
  bound, so the result is \<open>None\<close> when it does not return.
\<close>

partial_function (option) intersectDominators :: "BasicBlock list \<Rightarrow> nat \<Rightarrow> nat \<Rightarrow> nat option" where
  "intersectDominators blocks finger1 finger2 =
     (if finger1 = finger2 then Some finger1
      else if ID (blocks ! finger1) > ID (blocks ! finger2) then
        (case DominatedBy (blocks ! finger1) of
           None \<Rightarrow> Some finger2
         | Some d \<Rightarrow> intersectDominators blocks d finger2)
      else if ID (blocks ! finger2) > ID (blocks ! finger1) then
        (case DominatedBy (blocks ! finger2) of
           None \<Rightarrow> Some finger1
         | Some d \<Rightarrow> intersectDominators blocks finger1 d)
      else intersectDominators blocks finger1 finger2)"

declare intersectDominators.simps [code]

text \<open>The loop over the predecessors of a block that computes \<open>newDom\<close>.\<close>

fun newDom_loop :: "BasicBlock list \<Rightarrow> nat list \<Rightarrow> nat option \<Rightarrow> nat option option" where
  "newDom_loop blocks [] newDom = Some newDom"
| "newDom_loop blocks (pred # preds) newDom =
     (case DominatedBy (blocks ! pred) of
        None \<Rightarrow> newDom_loop blocks preds newDom
      | Some d \<Rightarrow>
          (case newDom of
             None \<Rightarrow> newDom_loop blocks preds (Some d)
           | Some nd \<Rightarrow>
               (case intersectDominators blocks d nd of
                  None \<Rightarrow> None
                | Some r \<Rightarrow> newDom_loop blocks preds (Some r))))"

text \<open>One sweep over all blocks; the result carries the flag \<open>changed\<close>.\<close>

fun dominator_pass :: "nat \<Rightarrow> nat list \<Rightarrow> BasicBlock list \<Rightarrow> bool \<Rightarrow> (BasicBlock list \<times> bool) option" where
  "dominator_pass entry [] blocks changed = Some (blocks, changed)"
| "dominator_pass entry (block # rest) blocks changed =
     (if block = entry then dominator_pass entry rest blocks changed
      else
        (case newDom_loop blocks (Predecessors (blocks ! block)) None of
           None \<Rightarrow> None
         | Some newDom \<Rightarrow>
             (if newDom \<noteq> None \<and> newDom \<noteq> DominatedBy (blocks ! block)
              then dominator_pass entry rest
                     (blocks[block := (blocks ! block)\<lparr>DominatedBy := newDom\<rparr>]) True
              else dominator_pass entry rest blocks changed)))"

text \<open>\<open>for changed && maxIterations > 0\<close>.\<close>

fun dominator_loop :: "nat \<Rightarrow> bool \<Rightarrow> nat \<Rightarrow> BasicBlock list \<Rightarrow> BasicBlock list option" where
  "dominator_loop entry changed 0 blocks = Some blocks"
| "dominator_loop entry changed (Suc maxIterations) blocks =
     (if changed then
        (case dominator_pass entry [0..<length blocks] blocks False of
           None \<Rightarrow> None
         | Some (blocks, changed) \<Rightarrow> dominator_loop entry changed maxIterations blocks)
      else Some blocks)"

definition computeDominators :: "ControlFlowGraph \<Rightarrow> ControlFlowGraph option" where
  "computeDominators cfg =
     (case EntryBlock cfg of
        None \<Rightarrow> Some cfg
      | Some entry \<Rightarrow>
          (if length (Blocks cfg) = 0 then Some cfg
           else
             (let blocks = (Blocks cfg)[entry := (Blocks cfg ! entry)\<lparr>DominatedBy := Some entry\<rparr>]
              in case dominator_loop entry True (length (Blocks cfg) * length (Blocks cfg)) blocks of
                   None \<Rightarrow> None
                 | Some blocks \<Rightarrow> Some (cfg\<lparr>Blocks := blocks\<rparr>))))"

definition mark_exits :: "ControlFlowGraph \<Rightarrow> ControlFlowGraph" where
  "mark_exits cfg =
     fold (\<lambda>i cfg.
             if EndsWithReturn (Blocks cfg ! i) \<or> length (Successors (Blocks cfg ! i)) = 0
             then cfg\<lparr>Blocks := (Blocks cfg)[i := (Blocks cfg ! i)\<lparr>IsExit := True\<rparr>],
                      ExitBlocks := ExitBlocks cfg @ [i]\<rparr>
             else cfg)
          [0..<length (Blocks cfg)] cfg"

text \<open>The address map: \<open>cfg.BlockMap[block.StartAddr] = block\<close> for every block in order.\<close>

definition makeBlockMap :: "BasicBlock list \<Rightarrow> (64 word \<rightharpoonup> nat)" where
  "makeBlockMap blocks = fold (\<lambda>i m. m(bb_StartAddr (blocks ! i) \<mapsto> i)) [0..<length blocks] Map.empty"

text \<open>Step 4 of \<open>BuildCFG\<close>: the first block is the entry block.\<close>

definition mark_entry :: "ControlFlowGraph \<Rightarrow> ControlFlowGraph" where
  "mark_entry cfg =
     (if length (Blocks cfg) > 0
      then cfg\<lparr>EntryBlock := Some 0, Blocks := (Blocks cfg)[0 := (Blocks cfg ! 0)\<lparr>IsEntry := True\<rparr>]\<rparr>
      else cfg)"

definition BuildCFG :: "Function \<Rightarrow> ControlFlowGraph option" where
  "BuildCFG fn =
     (let cfg = \<lparr>Blocks = [], EntryBlock = None, ExitBlocks = [], cfg_Function = fn, BlockMap = Map.empty\<rparr>
      in if length (Instructions fn) = 0 then Some cfg
         else
           (let leaders = identifyLeaders fn;
                blocks = createBasicBlocks fn leaders;
                cfg = cfg\<lparr>Blocks := blocks\<rparr>;
                cfg = cfg\<lparr>BlockMap := makeBlockMap blocks\<rparr>;
                cfg = cfg\<lparr>Blocks := connectBlocks (BlockMap cfg) (Blocks cfg)\<rparr>;
                cfg = mark_entry cfg;
                cfg = mark_exits cfg
            in computeDominators cfg))"

section \<open>Loop detection\<close>

text \<open>
  \<open>bb.Dominates(target)\<close> walks the \<open>DominatedBy\<close> chain from \<open>target\<close> until it
  meets \<open>bb\<close> or \<open>nil\<close>.  The loop has no bound: \<open>None\<close> is the walk that never ends.
\<close>

partial_function (option) Dominates_walk :: "BasicBlock list \<Rightarrow> nat \<Rightarrow> nat option \<Rightarrow> bool option" where
  "Dominates_walk blocks bb current =
     (case current of
        None \<Rightarrow> Some False
      | Some c \<Rightarrow> if c = bb then Some True else Dominates_walk blocks bb (DominatedBy (blocks ! c)))"

declare Dominates_walk.simps [code]

definition Dominates :: "BasicBlock list \<Rightarrow> nat \<Rightarrow> nat \<Rightarrow> bool option" where
  "Dominates blocks bb target = Dominates_walk blocks bb (Some target)"

fun backEdges_of :: "BasicBlock list \<Rightarrow> nat \<Rightarrow> nat list \<Rightarrow> (nat \<times> nat) list \<Rightarrow> (nat \<times> nat) list option" where
  "backEdges_of blocks block [] backEdges = Some backEdges"
| "backEdges_of blocks block (succ # succs) backEdges =
     (case Dominates blocks succ block of
        None \<Rightarrow> None
      | Some d \<Rightarrow> backEdges_of blocks block succs (if d then backEdges @ [(block, succ)] else backEdges))"

fun findBackEdges_loop :: "BasicBlock list \<Rightarrow> nat list \<Rightarrow> (nat \<times> nat) list \<Rightarrow> (nat \<times> nat) list option" where
  "findBackEdges_loop blocks [] backEdges = Some backEdges"
| "findBackEdges_loop blocks (block # rest) backEdges =
     (case backEdges_of blocks block (Successors (blocks ! block)) backEdges of
        None \<Rightarrow> None
      | Some backEdges \<Rightarrow> findBackEdges_loop blocks rest backEdges)"

definition findBackEdges :: "ControlFlowGraph \<Rightarrow> (nat \<times> nat) list option" where
  "findBackEdges cfg = findBackEdges_loop (Blocks cfg) [0..<length (Blocks cfg)] []"

text \<open>
  A \<open>*Loop\<close> is the position of the loop in the list that \<open>DetectLoops\<close> returns.
  The field \<open>Blocks\<close> of \<open>Loop\<close> is \<open>loop_Blocks\<close> here.
\<close>

record Loop =
  Header :: nat
  loop_Blocks :: "nat list"
  Exits :: "nat list"
  Parent :: "nat option"
  Nested :: "nat list"

text \<open>The worklist loop of \<open>constructLoop\<close>; \<open>visited\<close> is the set of keys mapped to true.\<close>

partial_function (option) constructLoop_worklist ::
  "BasicBlock list \<Rightarrow> nat list \<Rightarrow> nat set \<Rightarrow> nat list \<Rightarrow> nat list option" where
  "constructLoop_worklist blocks worklist visited loopBlocks =
     (if length worklist > 0 then
        (let block = worklist ! (length worklist - 1);
             worklist = take (length worklist - 1) worklist
         in if block \<in> visited then constructLoop_worklist blocks worklist visited loopBlocks
            else
              (let visited = insert block visited
               in constructLoop_worklist blocks
                    (worklist @ filter (\<lambda>pred. pred \<notin> visited) (Predecessors (blocks ! block)))
                    visited (loopBlocks @ [block])))
      else Some loopBlocks)"

declare constructLoop_worklist.simps [code]

definition constructLoop :: "BasicBlock list \<Rightarrow> nat \<Rightarrow> nat \<Rightarrow> Loop option" where
  "constructLoop blocks tail header =
     (case constructLoop_worklist blocks [tail] {header} [header] of
        None \<Rightarrow> None
      | Some loopBlocks \<Rightarrow>
          Some \<lparr>Header = header, loop_Blocks = loopBlocks,
                Exits = filter (\<lambda>block. list_ex (\<lambda>succ. succ \<notin> set loopBlocks) (Successors (blocks ! block)))
                               loopBlocks,
                Parent = None, Nested = []\<rparr>)"

definition loopContains :: "Loop \<Rightarrow> Loop \<Rightarrow> bool" where
  "loopContains loop1 loop2 = list_all (\<lambda>b. b \<in> set (loop_Blocks loop1)) (loop_Blocks loop2)"

definition buildLoopHierarchy :: "Loop list \<Rightarrow> Loop list" where
  "buildLoopHierarchy loops =
     (let loops =
            fold (\<lambda>(i, j) loops.
                    if i = j then loops
                    else if loopContains (loops ! i) (loops ! j)
                            \<and> (case Parent (loops ! j) of
                                  None \<Rightarrow> True
                                | Some p \<Rightarrow> length (loop_Blocks (loops ! i)) < length (loop_Blocks (loops ! p)))
                         then loops[j := (loops ! j)\<lparr>Parent := Some i\<rparr>]
                         else loops)
                 (List.product [0..<length loops] [0..<length loops]) loops
      in fold (\<lambda>l loops.
                 case Parent (loops ! l) of
                   None \<Rightarrow> loops
                 | Some p \<Rightarrow> loops[p := (loops ! p)\<lparr>Nested := Nested (loops ! p) @ [l]\<rparr>])
              [0..<length loops] loops)"

text \<open>The loop of \<open>DetectLoops\<close> over the back edges: build the loop, mark its blocks.\<close>

fun DetectLoops_edges ::
  "(nat \<times> nat) list \<Rightarrow> BasicBlock list \<Rightarrow> Loop list \<Rightarrow> (Loop list \<times> BasicBlock list) option" where
  "DetectLoops_edges [] blocks loops = Some (loops, blocks)"
| "DetectLoops_edges ((tail, header) # edges) blocks loops =
     (case constructLoop blocks tail header of
        None \<Rightarrow> None
      | Some loop \<Rightarrow>
          DetectLoops_edges edges
            (fold (\<lambda>b blocks. blocks[b := (blocks ! b)\<lparr>LoopHeader := Some (Header loop)\<rparr>])
                  (loop_Blocks loop) blocks)
            (loops @ [loop]))"

text \<open>\<open>DetectLoops\<close> returns the loops; the blocks it marked are returned with them.\<close>

definition DetectLoops :: "ControlFlowGraph \<Rightarrow> (Loop list \<times> ControlFlowGraph) option" where
  "DetectLoops cfg =
     (case findBackEdges cfg of
        None \<Rightarrow> None
      | Some backEdges \<Rightarrow>
          (case DetectLoops_edges backEdges (Blocks cfg) [] of
             None \<Rightarrow> None
           | Some (loops, blocks) \<Rightarrow> Some (buildLoopHierarchy loops, cfg\<lparr>Blocks := blocks\<rparr>)))"


section \<open>The lifter\<close>

text \<open>\<open>strings.Split\<close> with a one-character separator.\<close>

fun Split_from :: "char \<Rightarrow> string \<Rightarrow> string \<Rightarrow> string list" where
  "Split_from sep [] cur = [cur]"
| "Split_from sep (c # cs) cur =
     (if c = sep then cur # Split_from sep cs [] else Split_from sep cs (cur @ [c]))"

definition Split :: "string \<Rightarrow> char \<Rightarrow> string list" where
  "Split s sep = Split_from sep s []"

text \<open>
  A Go string is a sequence of bytes, read as UTF-8.  \<open>strings.TrimSpace\<close> removes the
  leading and the trailing code points for which \<open>unicode.IsSpace\<close> holds: tab, line
  feed, vertical tab, form feed, carriage return, space, U+0085, U+00A0, U+1680,
  U+2000 to U+200A, U+2028, U+2029, U+202F, U+205F and U+3000.  \<open>space_runes\<close> lists
  their UTF-8 encodings.  A string begins (ends) with such a code point exactly when it
  begins (ends) with its encoding, since only the first byte of an encoding starts a
  code point; bytes that are not valid UTF-8 decode to U+FFFD, which is not a space.
\<close>

definition space_runes :: "string list" where
  "space_runes =
     [[CHR 0x09], [CHR 0x0A], [CHR 0x0B], [CHR 0x0C], [CHR 0x0D], [CHR 0x20],
      [CHR 0xC2, CHR 0x85], [CHR 0xC2, CHR 0xA0], [CHR 0xE1, CHR 0x9A, CHR 0x80],
      [CHR 0xE2, CHR 0x80, CHR 0x80], [CHR 0xE2, CHR 0x80, CHR 0x81], [CHR 0xE2, CHR 0x80, CHR 0x82],
      [CHR 0xE2, CHR 0x80, CHR 0x83], [CHR 0xE2, CHR 0x80, CHR 0x84], [CHR 0xE2, CHR 0x80, CHR 0x85],
      [CHR 0xE2, CHR 0x80, CHR 0x86], [CHR 0xE2, CHR 0x80, CHR 0x87], [CHR 0xE2, CHR 0x80, CHR 0x88],
      [CHR 0xE2, CHR 0x80, CHR 0x89], [CHR 0xE2, CHR 0x80, CHR 0x8A], [CHR 0xE2, CHR 0x80, CHR 0xA8],
      [CHR 0xE2, CHR 0x80, CHR 0xA9], [CHR 0xE2, CHR 0x80, CHR 0xAF], [CHR 0xE2, CHR 0x81, CHR 0x9F],
      [CHR 0xE3, CHR 0x80, CHR 0x80]]"

text \<open>Drop leading occurrences of the given byte sequences, as long as there is one.\<close>

fun TrimLeftRunes :: "string list \<Rightarrow> string \<Rightarrow> string" where
  "TrimLeftRunes runes [] = []"
| "TrimLeftRunes runes (c # cs) =
     (case find (\<lambda>r. r \<noteq> [] \<and> take (length r) (c # cs) = r) runes of
        None \<Rightarrow> c # cs
      | Some r \<Rightarrow> TrimLeftRunes runes (drop (length r - 1) cs))"

definition TrimSpace :: "string \<Rightarrow> string" where
  "TrimSpace s = rev (TrimLeftRunes (map rev space_runes) (rev (TrimLeftRunes space_runes s)))"

text \<open>
  The operation kinds are an \<open>iota\<close> enumeration: \<open>OpAssign\<close> is the constant 0, the
  zero value of the field \<open>Type\<close>, so the test \<open>op.Type != 0\<close> of the source is
  \<open>op_Type op \<noteq> OpAssign\<close>.
\<close>

datatype OpType =
  OpAssign | OpCall | OpReturn | OpIf | OpLoop | OpCompare | OpArithmetic | OpMemoryAccess

record Operation =
  op_Type :: OpType
  Dest :: string
  Src1 :: string
  Src2 :: string
  Operator :: string
  op_Address :: "64 word"
  Comment :: string

record Variable =
  var_Name :: string
  var_Type :: string
  Register :: string
  var_Offset :: int
  IsLocal :: bool
  IsParam :: bool

record DecompiledFunction =
  df_Function :: Function
  Variables :: "Variable list"
  Operations :: "Operation list"
  LocalVars :: nat
  HasReturn :: bool

text \<open>
  The state of the loop of \<open>Decompile\<close>: the function under construction, the map from
  registers to variable names and the variable counter.
\<close>

type_synonym lift_state = "DecompiledFunction \<times> (string \<rightharpoonup> string) \<times> nat"

definition lift_mov :: "Instruction \<Rightarrow> Operation \<Rightarrow> lift_state \<Rightarrow> Operation \<times> lift_state" where
  "lift_mov inst op = (\<lambda>(df, regMap, varCount).
     let op = op\<lparr>op_Type := OpAssign\<rparr>;
         parts = Split (Operands inst) CHR '',''
     in if length parts = 2 then
          (let dest = TrimSpace (parts ! 0);
               src = TrimSpace (parts ! 1)
           in if Contains src ''rbp'' \<or> Contains src ''rsp'' then
                (let varName = ''var'' @ fmt_d varCount
                 in (op\<lparr>Dest := varName, Src1 := src\<rparr>,
                     (df\<lparr>Variables := Variables df @
                           [\<lparr>var_Name = varName, var_Type = [], Register = dest, var_Offset = 0,
                             IsLocal = True, IsParam = False\<rparr>]\<rparr>,
                      regMap(dest \<mapsto> varName), varCount + 1)))
              else if Contains dest ''rbp'' \<or> Contains dest ''rsp'' then
                (case regMap src of
                   Some varName \<Rightarrow> (op\<lparr>Dest := ''local'', Src1 := varName\<rparr>, (df, regMap, varCount))
                 | None \<Rightarrow> (op, (df, regMap, varCount)))
              else
                (case regMap src of
                   Some srcVar \<Rightarrow> (op\<lparr>Dest := dest, Src1 := srcVar\<rparr>, (df, regMap(dest \<mapsto> srcVar), varCount))
                 | None \<Rightarrow>
                     (let varName = ''var'' @ fmt_d varCount
                      in (op\<lparr>Dest := varName, Src1 := src\<rparr>, (df, regMap(dest \<mapsto> varName), varCount + 1)))))
        else (op, (df, regMap, varCount)))"

definition lift_arith :: "Instruction \<Rightarrow> Operation \<Rightarrow> (string \<rightharpoonup> string) \<Rightarrow> Operation" where
  "lift_arith inst op regMap =
     (let op = op\<lparr>op_Type := OpArithmetic, Operator := Mnemonic inst\<rparr>;
          parts = Split (Operands inst) CHR '',''
      in if length parts = 2 then
           (let dest = TrimSpace (parts ! 0);
                src = TrimSpace (parts ! 1)
            in case regMap dest of
                 Some varName \<Rightarrow> op\<lparr>Dest := varName, Src1 := varName, Src2 := src\<rparr>
               | None \<Rightarrow> op\<lparr>Dest := dest, Src1 := dest, Src2 := src\<rparr>)
         else op)"

definition lift_compare :: "Instruction \<Rightarrow> Operation \<Rightarrow> Operation" where
  "lift_compare inst op =
     (let op = op\<lparr>op_Type := OpCompare\<rparr>;
          parts = Split (Operands inst) CHR '',''
      in if length parts = 2
         then op\<lparr>Src1 := TrimSpace (parts ! 0), Src2 := TrimSpace (parts ! 1)\<rparr>
         else op)"

text \<open>
  The switch on the mnemonic for instruction \<open>i\<close>.  The result is \<open>None\<close> where the
  source executes \<open>continue\<close>, otherwise the operation built and the new state.
\<close>

definition lift_instruction :: "nat \<Rightarrow> Instruction \<Rightarrow> lift_state \<Rightarrow> (Operation \<times> lift_state) option" where
  "lift_instruction i inst = (\<lambda>(df, regMap, varCount).
     let op = \<lparr>op_Type = OpAssign, Dest = [], Src1 = [], Src2 = [], Operator = [],
               op_Address = Address inst, Comment = []\<rparr>;
         m = Mnemonic inst
     in if m = ''push'' then
          (if Operands inst = ''rbp'' \<and> i = 0 then None
           else Some (op\<lparr>op_Type := OpAssign, Comment := ''save '' @ Operands inst\<rparr>, (df, regMap, varCount)))
        else if m = ''pop'' then
          (if Operands inst = ''rbp'' then None
           else Some (op\<lparr>op_Type := OpAssign, Comment := ''restore '' @ Operands inst\<rparr>, (df, regMap, varCount)))
        else if m = ''mov'' then Some (lift_mov inst op (df, regMap, varCount))
        else if m = ''call'' then
          (let op = op\<lparr>op_Type := OpCall, Dest := ''result'', Src1 := Operands inst\<rparr>
           in Some (if HasPrefix (Operands inst) ''0x''
                    then op\<lparr>Comment := ''call to '' @ Operands inst\<rparr> else op,
                    (df, regMap, varCount)))
        else if m = ''ret'' then
          (let op = op\<lparr>op_Type := OpReturn\<rparr>
           in Some (case regMap ''rax'' of Some retVar \<Rightarrow> op\<lparr>Src1 := retVar\<rparr> | None \<Rightarrow> op,
                    (df\<lparr>HasReturn := True\<rparr>, regMap, varCount)))
        else if m \<in> set [''add'', ''sub'', ''mul'', ''imul'', ''div'', ''idiv''] then
          Some (lift_arith inst op regMap, (df, regMap, varCount))
        else if m \<in> set [''cmp'', ''test''] then
          Some (lift_compare inst op, (df, regMap, varCount))
        else if m \<in> set [''jmp'', ''je'', ''jne'', ''jg'', ''jge'', ''jl'', ''jle'', ''ja'', ''jb'', ''jbe'', ''jae''] then
          Some (op\<lparr>op_Type := OpIf, Operator := m, Src1 := Operands inst,
                   Comment := ''conditional jump: '' @ m\<rparr>, (df, regMap, varCount))
        else Some (op\<lparr>Comment := m @ '' '' @ Operands inst\<rparr>, (df, regMap, varCount)))"

text \<open>The loop body: the operation is appended \<open>if op.Type != 0 || op.Comment != ""\<close>.\<close>

definition Decompile_step :: "nat \<times> Instruction \<Rightarrow> lift_state \<Rightarrow> lift_state" where
  "Decompile_step = (\<lambda>(i, inst) st.
     case lift_instruction i inst st of
       None \<Rightarrow> st
     | Some (op, (df, regMap, varCount)) \<Rightarrow>
         (if op_Type op \<noteq> OpAssign \<or> Comment op \<noteq> []
          then (df\<lparr>Operations := Operations df @ [op]\<rparr>, regMap, varCount)
          else (df, regMap, varCount)))"

definition Decompile :: "Function \<Rightarrow> DecompiledFunction" where
  "Decompile fn =
     (let df = \<lparr>df_Function = fn, Variables = [], Operations = [], LocalVars = 0, HasReturn = False\<rparr>;
          (df, regMap, varCount) =
            fold Decompile_step (zip [0..<length (Instructions fn)] (Instructions fn)) (df, Map.empty, 0)
      in df\<lparr>LocalVars := varCount\<rparr>)"


section \<open>Notions used to state the properties\<close>

subsection \<open>Properties of one pass through the opcode switch\<close>

text \<open>\<open>step_all P s\<close>: if the switch is left normally, the instruction and offset satisfy \<open>P\<close>.\<close>

definition step_all :: "(Instruction \<Rightarrow> nat \<Rightarrow> bool) \<Rightarrow> decode_step \<Rightarrow> bool" where
  "step_all P s = (case s of Continue i n \<Rightarrow> P i n | _ \<Rightarrow> True)"

definition uncond :: "decode_step \<Rightarrow> bool" where
  "uncond s = step_all (\<lambda>i n. \<not> IsConditional i) s"

definition sized :: "nat \<Rightarrow> decode_step \<Rightarrow> bool" where
  "sized k s = step_all (\<lambda>i n. n = k) s"

subsection \<open>Opcode families\<close>

text \<open>The offset of the opcode byte: the number of prefix bytes the decoder skips.\<close>

definition opcode_offset :: "byte list \<Rightarrow> string \<Rightarrow> nat" where
  "opcode_offset data arch = fst (skip_prefixes data (arch = ''x86_64'') 0)"

definition one_byte_form :: "byte list \<Rightarrow> string \<Rightarrow> byte list \<Rightarrow> bool" where
  "one_byte_form data arch opcodes =
     (let off = opcode_offset data arch in off < length data \<and> data ! off \<in> set opcodes)"

definition two_byte_form :: "byte list \<Rightarrow> string \<Rightarrow> byte list \<Rightarrow> bool" where
  "two_byte_form data arch opcodes =
     (let off = opcode_offset data arch
      in off + 1 < length data \<and> data ! off = 0x0F \<and> data ! (off + 1) \<in> set opcodes)"

definition jcc_rel8_opcodes :: "byte list" where
  "jcc_rel8_opcodes = [0x70, 0x71, 0x72, 0x73, 0x74, 0x75, 0x76, 0x77, 0x78, 0x79, 0x7A, 0x7B, 0x7C, 0x7D, 0x7E, 0x7F]"

definition jcc_rel32_opcodes :: "byte list" where
  "jcc_rel32_opcodes = [0x80, 0x81, 0x82, 0x83, 0x84, 0x85, 0x86, 0x87, 0x88, 0x89, 0x8A, 0x8B, 0x8C, 0x8D, 0x8E, 0x8F]"

definition setcc_opcodes :: "byte list" where
  "setcc_opcodes = [0x90, 0x91, 0x92, 0x93, 0x94, 0x95, 0x96, 0x97, 0x98, 0x99, 0x9A, 0x9B, 0x9C, 0x9D, 0x9E, 0x9F]"

definition cmovcc_opcodes :: "byte list" where
  "cmovcc_opcodes = [0x40, 0x41, 0x42, 0x43, 0x44, 0x45, 0x46, 0x47, 0x48, 0x49, 0x4A, 0x4B, 0x4C, 0x4D, 0x4E, 0x4F]"

definition Jcc_family :: "byte list \<Rightarrow> string \<Rightarrow> bool" where
  "Jcc_family data arch =
     (one_byte_form data arch jcc_rel8_opcodes \<or> two_byte_form data arch jcc_rel32_opcodes)"

definition JRCXZ_family :: "byte list \<Rightarrow> string \<Rightarrow> bool" where
  "JRCXZ_family data arch = one_byte_form data arch [0xE3]"

definition SETcc_family :: "byte list \<Rightarrow> string \<Rightarrow> bool" where
  "SETcc_family data arch = two_byte_form data arch setcc_opcodes"

definition CMOVcc_family :: "byte list \<Rightarrow> string \<Rightarrow> bool" where
  "CMOVcc_family data arch = two_byte_form data arch cmovcc_opcodes"

text \<open>
  The one-byte opcodes whose case reads the byte after the opcode as a ModR/M byte, and the
  second opcode bytes after \<open>0x0F\<close> whose case reads or skips a ModR/M byte.  \<open>0xC4\<close> and
  \<open>0xC5\<close> read one when the byte after the opcode is below \<open>0xC0\<close> (\<open>LES\<close>, \<open>LDS\<close>).
\<close>

definition modrm_opcodes :: "byte list" where
  "modrm_opcodes =
     [0x88, 0x89, 0x8A, 0x8B, 0x01, 0x03, 0x29, 0x2B, 0x21, 0x23, 0x09, 0x0B, 0x31, 0x33, 0x39, 0x3B,
      0x85, 0xFF, 0x8D, 0x86, 0x87, 0xC0, 0xC1, 0xD0, 0xD1, 0xD2, 0xD3, 0xF6, 0xF7,
      0x00, 0x02, 0x08, 0x0A, 0x10, 0x11, 0x12, 0x13, 0x18, 0x19, 0x1A, 0x1B,
      0x20, 0x22, 0x28, 0x2A, 0x30, 0x32, 0x38, 0x3A, 0x80, 0x81, 0x82, 0x83, 0x84, 0xC6, 0xC7,
      0x69, 0x6B, 0xFE, 0x62, 0x63, 0x8C, 0x8E, 0x8F,
      0xD8, 0xD9, 0xDA, 0xDB, 0xDC, 0xDD, 0xDE, 0xDF]"

definition modrm_opcodes2 :: "byte list" where
  "modrm_opcodes2 =
     setcc_opcodes @ cmovcc_opcodes @
     [0xB6, 0xB7, 0xBE, 0xBF, 0xBC, 0xBD, 0xAF, 0xC0, 0xC1, 0xB0, 0xB1, 0x6E, 0x7E,
      0x10, 0x11, 0x28, 0x29, 0x57, 0x58, 0x59, 0x5C, 0x5D, 0x5E, 0x5F, 0x74, 0x75, 0x76,
      0xC3, 0x18, 0xAE, 0x1F, 0x0D]"

text \<open>
  The offset of the ModR/M byte of an encoding whose case takes one: the byte after the
  opcode, or after the second opcode byte.  The byte has to be there.
\<close>

definition modrm_position :: "byte list \<Rightarrow> string \<Rightarrow> nat option" where
  "modrm_position data arch =
     (let off = opcode_offset data arch in
      if off + 1 < length data \<and> data ! off \<in> set modrm_opcodes then Some (off + 1)
      else if off + 1 < length data \<and> data ! off \<in> set [0xC4, 0xC5] \<and> data ! (off + 1) < 0xC0
      then Some (off + 1)
      else if off + 2 < length data \<and> data ! off = 0x0F \<and> data ! (off + 1) \<in> set modrm_opcodes2
      then Some (off + 2)
      else None)"

text \<open>
  The number of immediate bytes of a form: a function of the opcode and of the \<open>reg\<close>
  field of the ModR/M byte (\<open>TEST\<close> in group \<open>0xF6\<close>/\<open>0xF7\<close>); for \<open>0xC0\<close> and \<open>0xC1\<close> the
  immediate is skipped only if a byte follows the ModR/M byte.  The \<open>mod\<close> field plays
  no part.
\<close>

definition immediate_length :: "byte \<Rightarrow> byte \<Rightarrow> bool \<Rightarrow> nat" where
  "immediate_length opcode modrm follows =
     (let reg = drop_bit 3 modrm AND 0x7 in
      if opcode \<in> set [0x80, 0x82, 0x83, 0xC6, 0x6B] then 1
      else if opcode \<in> set [0x81, 0xC7, 0x69] then 4
      else if opcode \<in> set [0xC0, 0xC1] then (if follows then 1 else 0)
      else if opcode = 0xF6 \<and> (reg = 0 \<or> reg = 1) then 1
      else if opcode = 0xF7 \<and> (reg = 0 \<or> reg = 1) then 4
      else 0)"

definition immediate_bytes :: "byte list \<Rightarrow> string \<Rightarrow> nat" where
  "immediate_bytes data arch =
     (let off = opcode_offset data arch
      in immediate_length (data ! off) (data ! (off + 1)) (off + 2 < length data))"

text \<open>
  The forms whose case takes no byte after the opcode bytes, although the instruction may
  carry a ModR/M byte: the remaining two-byte opcodes apart from \<open>Jcc rel32\<close> (\<open>BT\<close>,
  \<open>BTS\<close>, \<open>BTR\<close>, \<open>BTC\<close>, \<open>UD2\<close>, \<open>BSWAP\<close> and the opcodes that the decoder does not
  name), and the VEX prefixes \<open>0xC4\<close> (three bytes) and \<open>0xC5\<close> (two bytes), which are
  recognised when the next byte is at least \<open>0xC0\<close> and are returned as an instruction
  of their own.  The value is the number of bytes counted from the opcode byte on.
\<close>

definition opcode_bytes :: "byte list \<Rightarrow> string \<Rightarrow> nat option" where
  "opcode_bytes data arch =
     (let off = opcode_offset data arch in
      if off + 1 < length data \<and> data ! off = 0x0F
         \<and> data ! (off + 1) \<notin> set jcc_rel32_opcodes \<and> data ! (off + 1) \<notin> set modrm_opcodes2
      then Some 2
      else if off + 1 < length data \<and> data ! off = 0xC4 \<and> data ! (off + 1) \<ge> 0xC0 then Some 3
      else if off + 1 < length data \<and> data ! off = 0xC5 \<and> data ! (off + 1) \<ge> 0xC0 then Some 2
      else None)"

subsection \<open>Edge lists\<close>

text \<open>
  The edge lists of a block list are well formed when every successor and predecessor
  is a block of the list, \<open>b\<close> is a successor of \<open>a\<close> exactly when \<open>a\<close> is a
  predecessor of \<open>b\<close>, and no list holds a block twice.
\<close>

definition edges_wf :: "BasicBlock list \<Rightarrow> bool" where
  "edges_wf blocks =
     (\<forall>a < length blocks.
        (\<forall>b \<in> set (Successors (blocks ! a)). b < length blocks \<and> a \<in> set (Predecessors (blocks ! b)))
      \<and> (\<forall>b \<in> set (Predecessors (blocks ! a)). b < length blocks \<and> a \<in> set (Successors (blocks ! b)))
      \<and> distinct (Successors (blocks ! a)) \<and> distinct (Predecessors (blocks ! a)))"

text \<open>The block list after a call of \<open>AddSuccessor\<close> that appends to both lists.\<close>

definition add_edge :: "BasicBlock list \<Rightarrow> nat \<Rightarrow> nat \<Rightarrow> BasicBlock list" where
  "add_edge blocks bb succ =
     (let b1 = blocks[bb := (blocks ! bb)\<lparr>Successors := Successors (blocks ! bb) @ [succ]\<rparr>]
      in b1[succ := (b1 ! succ)\<lparr>Predecessors := Predecessors (b1 ! succ) @ [bb]\<rparr>])"

definition same_edges :: "BasicBlock list \<Rightarrow> BasicBlock list \<Rightarrow> bool" where
  "same_edges bs bs' =
     (map Successors bs' = map Successors bs \<and> map Predecessors bs' = map Predecessors bs)"

definition no_edges :: "BasicBlock \<Rightarrow> bool" where
  "no_edges b = (Successors b = [] \<and> Predecessors b = [])"

section \<open>Concrete inputs\<close>

text \<open>The prologue \<open>55 48 89 E5 48 83 EC 10 C3\<close> at \<open>0x3000\<close> and what the pipeline makes of it.\<close>

definition prologue_section :: Section where
  "prologue_section =
     \<lparr>sec_Name = ''.text'', sec_Address = 0x3000, sec_Size = 9,
      sec_Data = [0x55, 0x48, 0x89, 0xE5, 0x48, 0x83, 0xEC, 0x10, 0xC3], sec_Flags = 0\<rparr>"

definition prologue_instructions :: "Instruction list" where
  "prologue_instructions =
     [Instruction_zero\<lparr>Address := 0x3000, Bytes := [0x55], Mnemonic := ''push'', Operands := ''ebp'',
                        Size := 1, Category := CatStack, RegsRead := [''ebp'']\<rparr>,
      Instruction_zero\<lparr>Address := 0x3001, Bytes := [0x48, 0x89, 0xE5], Mnemonic := ''mov'',
                        Operands := ''rbp, rsp'', Size := 3, Category := CatDataTransfer\<rparr>,
      Instruction_zero\<lparr>Address := 0x3004, Bytes := [0x48, 0x83, 0xEC, 0x10], Mnemonic := ''sub'',
                        Operands := ''rsp, 0x10'', Size := 4, Category := CatArithmetic\<rparr>,
      Instruction_zero\<lparr>Address := 0x3008, Bytes := [0xC3], Mnemonic := ''ret'', Size := 1,
                        Category := CatReturn\<rparr>]"

definition prologue_function :: Function where
  "prologue_function =
     \<lparr>Name = ''sub_3000'', StartAddr = 0x3000, EndAddr = 0x3008,
      Instructions = prologue_instructions, Calls = []\<rparr>"

definition prologue_operations :: "Operation list" where
  "prologue_operations =
     [\<lparr>op_Type = OpAssign, Dest = [], Src1 = [], Src2 = [], Operator = [], op_Address = 0x3000,
       Comment = ''save ebp''\<rparr>,
      \<lparr>op_Type = OpArithmetic, Dest = ''rsp'', Src1 = ''rsp'', Src2 = ''0x10'', Operator = ''sub'',
       op_Address = 0x3004, Comment = []\<rparr>,
      \<lparr>op_Type = OpReturn, Dest = [], Src1 = [], Src2 = [], Operator = [], op_Address = 0x3008,
       Comment = []\<rparr>]"

text \<open>\<open>push ebp; call 0x2016; ret\<close>: the bytes \<open>55 E8 10 00 00 00 C3\<close> at \<open>0x2000\<close>.\<close>

definition call_section :: Section where
  "call_section =
     \<lparr>sec_Name = ''.text'', sec_Address = 0x2000, sec_Size = 7,
      sec_Data = [0x55, 0xE8, 0x10, 0x00, 0x00, 0x00, 0xC3], sec_Flags = 0\<rparr>"

definition call_instructions :: "Instruction list" where
  "call_instructions =
     [Instruction_zero\<lparr>Address := 0x2000, Bytes := [0x55], Mnemonic := ''push'', Operands := ''ebp'',
                        Size := 1, Category := CatStack, RegsRead := [''ebp'']\<rparr>,
      Instruction_zero\<lparr>Address := 0x2001, Bytes := [0xE8, 0x10, 0x00, 0x00, 0x00], Mnemonic := ''call'',
                        Operands := ''0x2016'', Size := 5, Category := CatCall, IsBranch := True,
                        BranchTarget := 0x2016, FallsThrough := True\<rparr>,
      Instruction_zero\<lparr>Address := 0x2006, Bytes := [0xC3], Mnemonic := ''ret'', Size := 1,
                        Category := CatReturn\<rparr>]"

definition call_function :: Function where
  "call_function =
     \<lparr>Name = ''sub_2000'', StartAddr = 0x2000, EndAddr = 0x2006,
      Instructions = call_instructions, Calls = [0x2001]\<rparr>"

text \<open>\<open>mov rbp, rsp; push ebp; nop; ret\<close>: the bytes \<open>48 89 E5 55 90 C3\<close> at \<open>0x1000\<close>.
  Both the \<open>mov\<close> (first instruction, mentions \<open>rsp\<close>) and the \<open>push ebp\<close> are marked as
  function starts.\<close>

definition boundary_section :: Section where
  "boundary_section =
     \<lparr>sec_Name = ''.text'', sec_Address = 0x1000, sec_Size = 6,
      sec_Data = [0x48, 0x89, 0xE5, 0x55, 0x90, 0xC3], sec_Flags = 0\<rparr>"

definition boundary_instructions :: "Instruction list" where
  "boundary_instructions =
     [Instruction_zero\<lparr>Address := 0x1000, Bytes := [0x48, 0x89, 0xE5], Mnemonic := ''mov'',
                        Operands := ''rbp, rsp'', Size := 3, Category := CatDataTransfer\<rparr>,
      Instruction_zero\<lparr>Address := 0x1003, Bytes := [0x55], Mnemonic := ''push'', Operands := ''ebp'',
                        Size := 1, Category := CatStack, RegsRead := [''ebp'']\<rparr>,
      Instruction_zero\<lparr>Address := 0x1004, Bytes := [0x90], Mnemonic := ''nop'', Size := 1,
                        Category := CatNop\<rparr>,
      Instruction_zero\<lparr>Address := 0x1005, Bytes := [0xC3], Mnemonic := ''ret'', Size := 1,
                        Category := CatReturn\<rparr>]"

definition boundary_functions :: "Function list" where
  "boundary_functions =
     [\<lparr>Name = ''sub_1000'', StartAddr = 0x1000, EndAddr = 0x1002,
       Instructions = take 1 boundary_instructions, Calls = []\<rparr>,
      \<lparr>Name = ''sub_1003'', StartAddr = 0x1003, EndAddr = 0x1005,
       Instructions = drop 1 boundary_instructions, Calls = []\<rparr>]"

text \<open>
  A function with the blocks and edges \<open>B0 \<rightarrow> B1 \<rightarrow> B2 \<rightarrow> B1\<close>:
  \<open>nop; jmp 0x1003; jmp 0x1001\<close>, the bytes \<open>90 EB 00 EB FC\<close> at \<open>0x1000\<close>, with a symbol
  \<open>f\<close> at \<open>0x1000\<close>.
\<close>

definition loop_section :: Section where
  "loop_section =
     \<lparr>sec_Name = ''.text'', sec_Address = 0x1000, sec_Size = 5,
      sec_Data = [0x90, 0xEB, 0x00, 0xEB, 0xFC], sec_Flags = 0\<rparr>"

definition loop_symbols :: "Symbol list" where
  "loop_symbols = [\<lparr>sym_Name = ''f'', sym_Address = 0x1000, sym_Size = 0, sym_Type = []\<rparr>]"

definition loop_instructions :: "Instruction list" where
  "loop_instructions =
     [Instruction_zero\<lparr>Address := 0x1000, Bytes := [0x90], Mnemonic := ''nop'', Size := 1,
                        Category := CatNop\<rparr>,
      Instruction_zero\<lparr>Address := 0x1001, Bytes := [0xEB, 0x00], Mnemonic := ''jmp'',
                        Operands := ''0x1003'', Size := 2, Category := CatJump, IsBranch := True,
                        BranchTarget := 0x1003\<rparr>,
      Instruction_zero\<lparr>Address := 0x1003, Bytes := [0xEB, 0xFC], Mnemonic := ''jmp'',
                        Operands := ''0x1001'', Size := 2, Category := CatJump, IsBranch := True,
                        BranchTarget := 0x1001\<rparr>]"

definition loop_function :: Function where
  "loop_function =
     \<lparr>Name = ''f'', StartAddr = 0x1000, EndAddr = 0x1003, Instructions = loop_instructions, Calls = []\<rparr>"

definition loop_blocks :: "BasicBlock list" where
  "loop_blocks =
     [\<lparr>ID = 0, bb_StartAddr = 0x1000, bb_EndAddr = 0x1000, bb_Instructions = [loop_instructions ! 0],
       Successors = [1], Predecessors = [], IsEntry = True, IsExit = False, LoopHeader = None,
       DominatedBy = Some 0\<rparr>,
      \<lparr>ID = 1, bb_StartAddr = 0x1001, bb_EndAddr = 0x1001, bb_Instructions = [loop_instructions ! 1],
       Successors = [2], Predecessors = [0, 2], IsEntry = False, IsExit = False, LoopHeader = None,
       DominatedBy = Some 0\<rparr>,
      \<lparr>ID = 2, bb_StartAddr = 0x1003, bb_EndAddr = 0x1003, bb_Instructions = [loop_instructions ! 2],
       Successors = [1], Predecessors = [1], IsEntry = False, IsExit = False, LoopHeader = None,
       DominatedBy = Some 0\<rparr>]"

definition loop_cfg :: ControlFlowGraph where
  "loop_cfg =
     \<lparr>Blocks = loop_blocks, EntryBlock = Some 0, ExitBlocks = [], cfg_Function = loop_function,
      BlockMap = [0x1000 \<mapsto> 0, 0x1001 \<mapsto> 1, 0x1003 \<mapsto> 2]\<rparr>"

text \<open>Single instructions the theorems name.\<close>

definition truncated_test :: "64 word \<Rightarrow> Instruction" where
  "truncated_test addr =
     Instruction_zero\<lparr>Address := addr, Mnemonic := ''test'', Size := 3, Category := CatCompare\<rparr>"

definition mov_disp8 :: Instruction where
  "mov_disp8 =
     Instruction_zero\<lparr>Address := 0x2000, Bytes := [0x89, 0x45], Mnemonic := ''mov'',
                       Operands := ''[ebp+0x8], eax'', Size := 2, Category := CatDataTransfer\<rparr>"

definition add_disp8 :: Instruction where
  "add_disp8 =
     Instruction_zero\<lparr>Address := 0x2000, Bytes := [0x83, 0x45, 0x08], Mnemonic := ''add'',
                       Operands := ''[ebp+0x8], 0x8'', Size := 3, Category := CatArithmetic\<rparr>"

definition call_disp8 :: Instruction where
  "call_disp8 =
     Instruction_zero\<lparr>Address := 0x2000, Bytes := [0xFF, 0x55], Mnemonic := ''call'', Size := 2,
                       Category := CatCall, FallsThrough := True\<rparr>"

definition movzx_disp8 :: Instruction where
  "movzx_disp8 =
     Instruction_zero\<lparr>Address := 0x2000, Bytes := [0x0F, 0xB6, 0x45], Mnemonic := ''movzx'', Size := 3,
                       Category := CatDataTransfer\<rparr>"

definition bt_disp8 :: Instruction where
  "bt_disp8 =
     Instruction_zero\<lparr>Address := 0x2000, Bytes := [0x0F, 0xA3], Mnemonic := ''bt'', Size := 2,
                       Category := CatLogical\<rparr>"

definition vex2_prefix :: Instruction where
  "vex2_prefix =
     Instruction_zero\<lparr>Address := 0x2000, Bytes := [0xC5, 0xF8], Mnemonic := ''vex2'', Size := 2,
                       Category := CatOther\<rparr>"

definition sete_al :: Instruction where
  "sete_al =
     Instruction_zero\<lparr>Address := 0x1000, Bytes := [0x0F, 0x94, 0xC0], Mnemonic := ''sete'', Size := 3,
                       Category := CatDataTransfer\<rparr>"

definition je_short :: Instruction where
  "je_short =
     Instruction_zero\<lparr>Address := 0x1000, Bytes := [0x74, 0x05], Mnemonic := ''je'', Operands := ''0x1007'',
                       Size := 2, Category := CatJump, IsConditional := True, IsBranch := True,
                       BranchTarget := 0x1007, FallsThrough := True\<rparr>"

definition prefixed_loop :: Instruction where
  "prefixed_loop =
     Instruction_zero\<lparr>Address := 0x1000, Bytes := [0x67, 0xE2, 0x05], Mnemonic := ''loop'',
                       Operands := ''0x1007'', Size := 3, Category := CatJump, IsBranch := True,
                       BranchTarget := 0x1007\<rparr>"

section \<open>Evaluation on concrete input\<close>

lemmas decode_eval =
  EnhancedDecodeInstruction_def skip_prefixes.simps decode_opcode_def decode_two_byte_def
  finish_decode_def need_byte_def need_bytes_def read_modrm_def modrm_operands_def modrm_case_def
  imm8_case_def imm32_case_def imm16_case_def skip1_case_def named_def two_operands_def
  rel8_target_def rel32_target_def loop_target_def hex_target_def loop_case_def fpu_case_def
  directed_def imm_hex_def sregs_def group1_mnemonic_def group1_category_def group1_case_def
  shift_case_def group3_case_def group5_case_def vex_case_def fpu_d9_case_def
  decodeModRMDetailed_def jccMnemonic_def regName64_def regName8_def Uint32_def Uint16_def
  subslice_def fmt_x.simps fmt_02x_def fmt_x_int8_def Instruction_zero_def Let_def

lemmas sweep_eval =
  DisassembleSection_def sweep.simps decodeInstruction_def decodeModRM_def regName_def
  fmt_d.simps decode_eval

lemmas find_eval =
  FindFunctions_def funcStarts_def isStart_def isPaddingOrData_def isPaddingSequence_def
  symbolMap_def symbolAddrs_def pass2_step_def emit_def Let_def fmt_x.simps Instruction_zero_def

lemmas lift_eval =
  Decompile_def Decompile_step_def lift_instruction_def lift_mov_def lift_arith_def
  lift_compare_def Split_def TrimSpace_def space_runes_def fmt_d.simps Let_def Instruction_zero_def

lemmas family_eval =
  Jcc_family_def JRCXZ_family_def SETcc_family_def CMOVcc_family_def one_byte_form_def
  two_byte_form_def opcode_offset_def skip_prefixes.simps jcc_rel8_opcodes_def
  jcc_rel32_opcodes_def setcc_opcodes_def cmovcc_opcodes_def modrm_position_def
  modrm_opcodes_def modrm_opcodes2_def immediate_bytes_def immediate_length_def
  opcode_bytes_def Let_def

lemma prologue_decoded:
  "DisassembleSection prologue_section ''x86_64'' = Disassembled prologue_instructions"
  by (simp add: prologue_section_def prologue_instructions_def sweep_eval)

lemma prologue_found: "FindFunctions prologue_instructions [] = [prologue_function]"
  by (simp add: prologue_function_def prologue_instructions_def find_eval)

lemma prologue_lifted: "Operations (Decompile prologue_function) = prologue_operations"
  by (simp add: prologue_function_def prologue_instructions_def prologue_operations_def lift_eval)

lemma prologue_returns: "HasReturn (Decompile prologue_function)"
  by (simp add: prologue_function_def prologue_instructions_def lift_eval)

lemma prologue_single_block:
  "map_option (\<lambda>cfg. length (Blocks cfg)) (BuildCFG prologue_function) = Some 1"
  by code_simp

lemma call_decoded: "DisassembleSection call_section ''x86_64'' = Disassembled call_instructions"
  by (simp add: call_section_def call_instructions_def sweep_eval)

lemma call_found: "FindFunctions call_instructions [] = [call_function]"
  by (simp add: call_function_def call_instructions_def find_eval)

lemma boundary_decoded:
  "DisassembleSection boundary_section ''x86_64'' = Disassembled boundary_instructions"
  by (simp add: boundary_section_def boundary_instructions_def sweep_eval)

lemma boundary_found: "FindFunctions boundary_instructions [] = boundary_functions"
  by (simp add: boundary_functions_def boundary_instructions_def find_eval)

lemma loop_decoded: "DisassembleSection loop_section ''x86_64'' = Disassembled loop_instructions"
  by (simp add: loop_section_def loop_instructions_def sweep_eval)

lemma loop_found: "FindFunctions loop_instructions loop_symbols = [loop_function]"
  by (simp add: loop_function_def loop_instructions_def loop_symbols_def find_eval)

lemma loop_built: "BuildCFG loop_function = Some loop_cfg"
  by code_simp


section \<open>Facts about the opcode switch\<close>

lemma step_all_simps [simp]:
  "step_all P (Continue i n) = P i n" "step_all P ReturnZero" "step_all P (Panics p)"
  by (simp_all add: step_all_def)

lemma step_all_if: "(c \<Longrightarrow> step_all P a) \<Longrightarrow> step_all P b \<Longrightarrow> step_all P (if c then a else b)"
  by simp

lemma step_all_mono: "step_all P s \<Longrightarrow> (\<And>i n. P i n \<Longrightarrow> Q i n) \<Longrightarrow> step_all Q s"
  by (auto simp: step_all_def split: decode_step.splits)

lemma step_all_need_byte: "step_all P k \<Longrightarrow> step_all P (need_byte d ofs k)"
  by (simp add: need_byte_def)
lemma step_all_need_bytes: "step_all P k \<Longrightarrow> step_all P (need_bytes n d ofs k)"
  by (simp add: need_bytes_def)
lemma step_all_read_modrm:
  "(\<And>m ofs'. step_all P (k m ofs')) \<Longrightarrow> step_all P (read_modrm d ofs k)"
  by (simp add: read_modrm_def)
lemma step_all_modrm_operands:
  "(\<And>a b. step_all P (k a b)) \<Longrightarrow> step_all P (modrm_operands m d ofs r k)"
  by (auto simp: modrm_operands_def split: sum.splits)

lemmas step_all_intros = step_all_need_byte step_all_need_bytes step_all_read_modrm step_all_modrm_operands

lemma uncond_simps [simp]:
  "uncond (Continue i n) = (\<not> IsConditional i)" "uncond ReturnZero" "uncond (Panics p)"
  by (simp_all add: uncond_def)

lemma cond_named [simp]: "IsConditional (named i m c) = IsConditional i"
  by (simp add: named_def)

lemma uncond_modrm_case [simp]: "\<not> IsConditional i \<Longrightarrow> uncond (modrm_case d ofs r i f)"
  unfolding uncond_def modrm_case_def by (intro step_all_intros) simp
lemma uncond_imm8 [simp]: "\<not> IsConditional i \<Longrightarrow> uncond (imm8_case d ofs i f)"
  unfolding uncond_def imm8_case_def by (intro step_all_intros) simp
lemma uncond_imm32 [simp]: "\<not> IsConditional i \<Longrightarrow> uncond (imm32_case d ofs i f)"
  unfolding uncond_def imm32_case_def by (intro step_all_intros) simp
lemma uncond_imm16 [simp]: "\<not> IsConditional i \<Longrightarrow> uncond (imm16_case d ofs i f)"
  unfolding uncond_def imm16_case_def by (intro step_all_intros) simp
lemma uncond_skip1 [simp]: "\<not> IsConditional i \<Longrightarrow> uncond (skip1_case d ofs i)"
  unfolding uncond_def skip1_case_def by (intro step_all_intros) simp
lemma uncond_fpu [simp]: "\<not> IsConditional i \<Longrightarrow> uncond (fpu_case d ofs i m)"
  unfolding uncond_def fpu_case_def by (intro step_all_intros) simp
lemma uncond_fpu_d9 [simp]: "\<not> IsConditional i \<Longrightarrow> uncond (fpu_d9_case d r ofs i)"
  unfolding uncond_def fpu_d9_case_def by (intro step_all_intros step_all_if) simp_all
lemma uncond_vex [simp]: "\<not> IsConditional i \<Longrightarrow> uncond (vex_case d r ofs i a b n l)"
  unfolding uncond_def vex_case_def Let_def by (intro step_all_intros step_all_if) simp_all
lemma uncond_group1 [simp]: "\<not> IsConditional i \<Longrightarrow> uncond (group1_case d r opc ofs i)"
  unfolding uncond_def group1_case_def Let_def by (intro step_all_intros step_all_if) simp_all
lemma uncond_group3 [simp]: "\<not> IsConditional i \<Longrightarrow> uncond (group3_case d opc ofs i)"
  unfolding uncond_def group3_case_def Let_def by (intro step_all_intros step_all_if) simp_all
lemma uncond_group5 [simp]: "\<not> IsConditional i \<Longrightarrow> uncond (group5_case d ofs i)"
  unfolding uncond_def group5_case_def Let_def by (intro step_all_intros step_all_if) simp_all
lemma uncond_shift [simp]: "\<not> IsConditional i \<Longrightarrow> uncond (shift_case d opc ofs i)"
  unfolding uncond_def shift_case_def Let_def by (intro step_all_intros step_all_if) simp_all
lemma uncond_loop [simp]: "\<not> IsConditional i \<Longrightarrow> uncond (loop_case d a ofs i m False)"
  unfolding uncond_def loop_case_def Let_def by (intro step_all_intros step_all_if) simp_all

lemma uncond_if: "(c \<Longrightarrow> uncond a) \<Longrightarrow> uncond b \<Longrightarrow> uncond (if c then a else b)"
  by simp
lemma uncond_need_byte: "uncond k \<Longrightarrow> uncond (need_byte d ofs k)"
  by (simp add: need_byte_def)
lemma uncond_need_bytes: "uncond k \<Longrightarrow> uncond (need_bytes n d ofs k)"
  by (simp add: need_bytes_def)
lemma uncond_read_modrm: "(\<And>m ofs'. uncond (k m ofs')) \<Longrightarrow> uncond (read_modrm d ofs k)"
  by (simp add: read_modrm_def)
lemma uncond_modrm_operands: "(\<And>a b. uncond (k a b)) \<Longrightarrow> uncond (modrm_operands m d ofs r k)"
  unfolding uncond_def by (rule step_all_modrm_operands)

lemmas uncond_intros = uncond_if uncond_need_byte uncond_need_bytes uncond_read_modrm uncond_modrm_operands

lemma uncond_weaken: "uncond s \<Longrightarrow> step_all (\<lambda>i n. IsConditional i \<longrightarrow> Q) s"
  unfolding uncond_def by (erule step_all_mono) simp


lemma step_all_True [simp]: "step_all (\<lambda>i n. True) s"
  by (simp add: step_all_def split: decode_step.splits)

lemma step_all_need_byte': "(ofs < length d \<Longrightarrow> step_all P k) \<Longrightarrow> step_all P (need_byte d ofs k)"
  by (simp add: need_byte_def)


lemma uncond_need_byte_eq [simp]: "uncond (need_byte d ofs k) = (ofs < length d \<longrightarrow> uncond k)"
  by (auto simp: need_byte_def)
lemma uncond_need_bytes_eq [simp]: "uncond (need_bytes n d ofs k) = (ofs + n \<le> length d \<longrightarrow> uncond k)"
  by (auto simp: need_bytes_def)
lemma uncond_read_modrm_eq [simp]:
  "uncond (read_modrm d ofs k) = (ofs < length d \<longrightarrow> uncond (k (d ! ofs) (ofs + 1)))"
  by (auto simp: read_modrm_def)
lemma uncond_modrm_operands_eq [simp]:
  "uncond (modrm_operands m d ofs r k) =
     (\<forall>a b. decodeModRMDetailed m (drop ofs d) r = Inr (a, b) \<longrightarrow> uncond (k a b))"
  by (auto simp: modrm_operands_def split: sum.splits)


lemma two_byte_cond:
  assumes "\<not> IsConditional inst"
  shows "step_all (\<lambda>i n. IsConditional i \<longrightarrow> ofs < length d \<and> d ! ofs \<in> set jcc_rel32_opcodes)
     (decode_two_byte d a r ofs inst)"
  unfolding decode_two_byte_def Let_def
  apply (rule step_all_need_byte')
  apply (rule step_all_if)
   apply (simp add: jcc_rel32_opcodes_def need_bytes_def)
  apply (rule uncond_weaken)
  apply (intro uncond_intros)
  using assms apply simp_all
  done

lemma one_byte_cond:
  assumes "\<not> IsConditional inst"
  shows "step_all (\<lambda>i n. IsConditional i \<longrightarrow>
            opcode \<in> set jcc_rel8_opcodes \<or> opcode = 0xE3 \<or>
            (opcode = 0x0F \<and> ofs < length d \<and> d ! ofs \<in> set jcc_rel32_opcodes))
     (decode_opcode d a is64 r opcode ofs inst)"
  unfolding decode_opcode_def Let_def
  apply (intro step_all_if)
  using assms
  apply (simp_all add: jcc_rel8_opcodes_def uncond_weaken step_all_need_byte two_byte_cond uncond_def[symmetric])
  done


lemma jcc_rel8_is_cond:
  "opcode \<in> set jcc_rel8_opcodes \<Longrightarrow> step_all (\<lambda>i n. IsConditional i) (decode_opcode d a is64 r opcode ofs inst)"
  unfolding decode_opcode_def jcc_rel8_opcodes_def
  apply (simp only: set_simps insert_iff empty_iff)
  apply (elim disjE)
  apply (simp_all add: need_byte_def Let_def)
  done
lemma jrcxz_is_cond:
  "step_all (\<lambda>i n. IsConditional i) (decode_opcode d a is64 r 0xE3 ofs inst)"
  unfolding decode_opcode_def
  by (simp add: need_byte_def loop_case_def Let_def)
lemma jcc_rel32_is_cond:
  "ofs < length d \<Longrightarrow> d ! ofs \<in> set jcc_rel32_opcodes \<Longrightarrow>
   step_all (\<lambda>i n. IsConditional i) (decode_opcode d a is64 r 0x0F ofs inst)"
  unfolding decode_opcode_def decode_two_byte_def jcc_rel32_opcodes_def
  by (simp add: need_byte_def need_bytes_def Let_def)


lemma decode_success:
  assumes "EnhancedDecodeInstruction data addr arch = Inr (inst, n)" and "n \<noteq> 0"
  obtains rexW inst1 where
    "opcode_offset data arch < length data"
    "decode_opcode data addr (arch = ''x86_64'') rexW (data ! opcode_offset data arch)
       (opcode_offset data arch + 1) (Instruction_zero\<lparr>Address := addr\<rparr>) = Continue inst1 n"
    "inst = (if n \<le> length data then inst1\<lparr>Size := n, Bytes := subslice data 0 n\<rparr> else inst1\<lparr>Size := n\<rparr>)"
  using assms
  unfolding EnhancedDecodeInstruction_def opcode_offset_def finish_decode_def Let_def
  by (auto split: if_splits prod.splits decode_step.splits)

lemma cond_zero [simp]: "\<not> IsConditional (Instruction_zero\<lparr>Address := addr\<rparr>)"
  by (simp add: Instruction_zero_def)

lemma sized_simps [simp]:
  "sized k (Continue i n) = (n = k)" "sized k ReturnZero" "sized k (Panics p)"
  by (simp_all add: sized_def)
lemma sized_need_byte [simp]: "sized k (need_byte d ofs c) = (ofs < length d \<longrightarrow> sized k c)"
  by (auto simp: need_byte_def)
lemma sized_need_bytes [simp]: "sized k (need_bytes n d ofs c) = (ofs + n \<le> length d \<longrightarrow> sized k c)"
  by (auto simp: need_bytes_def)
lemma sized_read_modrm [simp]:
  "sized k (read_modrm d ofs c) = (ofs < length d \<longrightarrow> sized k (c (d ! ofs) (ofs + 1)))"
  by (auto simp: read_modrm_def)
lemma sized_modrm_operands [simp]:
  "sized k (modrm_operands m d ofs r c) =
     (\<forall>a b. decodeModRMDetailed m (drop ofs d) r = Inr (a, b) \<longrightarrow> sized k (c a b))"
  by (auto simp: modrm_operands_def split: sum.splits)
lemma sized_modrm_case [simp]: "sized k (modrm_case d ofs r i f) = (ofs < length d \<longrightarrow> (\<exists>a b. decodeModRMDetailed (d ! ofs) (drop (ofs + 1) d) r = Inr (a, b)) \<longrightarrow> k = ofs + 1)"
  by (auto simp: modrm_case_def)


lemma modrm_forms_size:
  "opcode \<in> set modrm_opcodes \<Longrightarrow>
   sized (ofs + 1 + immediate_length opcode (d ! ofs) (ofs + 1 < length d))
     (decode_opcode d a is64 r opcode ofs inst)"
  unfolding decode_opcode_def modrm_opcodes_def
  apply (simp only: set_simps insert_iff empty_iff)
  apply (elim disjE)
  apply (simp_all add: immediate_length_def group1_case_def shift_case_def group3_case_def
      group5_case_def fpu_case_def fpu_d9_case_def Let_def)
  done

lemma les_lds_size:
  "opcode \<in> set [0xC4, 0xC5] \<Longrightarrow> ofs < length d \<Longrightarrow> d ! ofs < 0xC0 \<Longrightarrow>
   sized (ofs + 1) (decode_opcode d a is64 r opcode ofs inst)"
  unfolding decode_opcode_def
  apply (simp only: set_simps insert_iff empty_iff)
  apply (elim disjE)
  apply (simp_all add: vex_case_def Let_def)
  done

lemma decode_opcode_0F: "decode_opcode d a is64 r 0x0F ofs inst = decode_two_byte d a r ofs inst"
  by (simp add: decode_opcode_def)

lemma modrm_forms2_size:
  "d ! ofs \<in> set modrm_opcodes2 \<Longrightarrow> ofs + 1 < length d \<Longrightarrow>
   sized (ofs + 2) (decode_two_byte d a r ofs inst)"
  unfolding decode_two_byte_def modrm_opcodes2_def setcc_opcodes_def cmovcc_opcodes_def
  apply (simp only: set_simps set_append Un_iff insert_iff empty_iff)
  apply (elim disjE)
  apply (simp_all add: skip1_case_def Let_def)
  done

lemma opcode_only2_size:
  assumes "d ! ofs \<notin> set jcc_rel32_opcodes" and "d ! ofs \<notin> set modrm_opcodes2"
  shows "sized (ofs + 1) (decode_two_byte d a r ofs inst)"
  unfolding decode_two_byte_def Let_def sized_def
  apply (rule step_all_need_byte')
  apply (intro step_all_if)
  using assms
  apply (simp_all add: jcc_rel32_opcodes_def modrm_opcodes2_def setcc_opcodes_def cmovcc_opcodes_def)
  done

lemma vex_prefix_size:
  "ofs < length d \<Longrightarrow> d ! ofs \<ge> 0xC0 \<Longrightarrow>
   sized (ofs + 2) (decode_opcode d a is64 r 0xC4 ofs inst)
   \<and> sized (ofs + 1) (decode_opcode d a is64 r 0xC5 ofs inst)"
  by (simp add: decode_opcode_def vex_case_def)

lemma first_of_three:
  "(if A then Some x else if B then Some y else if C then Some z else None) = Some m \<Longrightarrow>
   (A \<and> m = x) \<or> (B \<and> m = y) \<or> (C \<and> m = z)"
  by (auto split: if_splits)

section \<open>Edge lists are kept well formed\<close>

lemma add_edge_length [simp]: "length (add_edge blocks bb succ) = length blocks"
  by (simp add: add_edge_def Let_def)

lemma add_edge_Successors:
  "bb < length blocks \<Longrightarrow> succ < length blocks \<Longrightarrow> a < length blocks \<Longrightarrow>
   Successors (add_edge blocks bb succ ! a) =
     (if a = bb then Successors (blocks ! a) @ [succ] else Successors (blocks ! a))"
  by (simp add: add_edge_def Let_def nth_list_update)

lemma add_edge_Predecessors:
  "bb < length blocks \<Longrightarrow> succ < length blocks \<Longrightarrow> a < length blocks \<Longrightarrow>
   Predecessors (add_edge blocks bb succ ! a) =
     (if a = succ then Predecessors (blocks ! a) @ [bb] else Predecessors (blocks ! a))"
  by (simp add: add_edge_def Let_def nth_list_update)

lemma edges_wf_succD:
  "edges_wf blocks \<Longrightarrow> a < length blocks \<Longrightarrow> b \<in> set (Successors (blocks ! a)) \<Longrightarrow>
   b < length blocks \<and> a \<in> set (Predecessors (blocks ! b))"
  unfolding edges_wf_def by blast

lemma edges_wf_predD:
  "edges_wf blocks \<Longrightarrow> a < length blocks \<Longrightarrow> b \<in> set (Predecessors (blocks ! a)) \<Longrightarrow>
   b < length blocks \<and> a \<in> set (Successors (blocks ! b))"
  unfolding edges_wf_def by blast

lemma edges_wf_distinctD:
  "edges_wf blocks \<Longrightarrow> a < length blocks \<Longrightarrow>
   distinct (Successors (blocks ! a)) \<and> distinct (Predecessors (blocks ! a))"
  unfolding edges_wf_def by blast


lemma add_edge_wf:
  assumes wf: "edges_wf blocks" and bb: "bb < length blocks" and succ: "succ < length blocks"
    and new: "succ \<notin> set (Successors (blocks ! bb))"
  shows "edges_wf (add_edge blocks bb succ)"
proof -
  from edges_wf_predD[OF wf succ] new have nopred: "bb \<notin> set (Predecessors (blocks ! succ))"
    by blast
  note S = add_edge_Successors[OF bb succ] and P = add_edge_Predecessors[OF bb succ]
  show ?thesis
    unfolding edges_wf_def add_edge_length
  proof (intro allI impI conjI ballI)
    fix a b assume a: "a < length blocks" and b: "b \<in> set (Successors (add_edge blocks bb succ ! a))"
    from b have "b \<in> set (Successors (blocks ! a)) \<or> (a = bb \<and> b = succ)"
      unfolding S[OF a] by (auto split: if_splits)
    then show "b < length blocks"
      using edges_wf_succD[OF wf a] succ by blast
    from \<open>b \<in> set (Successors (blocks ! a)) \<or> (a = bb \<and> b = succ)\<close> \<open>b < length blocks\<close>
    show "a \<in> set (Predecessors (add_edge blocks bb succ ! b))"
      unfolding P[OF \<open>b < length blocks\<close>] using edges_wf_succD[OF wf a] by auto
  next
    fix a b assume a: "a < length blocks" and b: "b \<in> set (Predecessors (add_edge blocks bb succ ! a))"
    from b have c: "b \<in> set (Predecessors (blocks ! a)) \<or> (a = succ \<and> b = bb)"
      unfolding P[OF a] by (auto split: if_splits)
    then show "b < length blocks"
      using edges_wf_predD[OF wf a] bb by blast
    from c \<open>b < length blocks\<close>
    show "a \<in> set (Successors (add_edge blocks bb succ ! b))"
      unfolding S[OF \<open>b < length blocks\<close>] using edges_wf_predD[OF wf a] by auto
  next
    fix a assume a: "a < length blocks"
    show "distinct (Successors (add_edge blocks bb succ ! a))"
      unfolding S[OF a] using edges_wf_distinctD[OF wf a] new by auto
  next
    fix a assume a: "a < length blocks"
    show "distinct (Predecessors (add_edge blocks bb succ ! a))"
      unfolding P[OF a] using edges_wf_distinctD[OF wf a] nopred by auto
  qed
qed

lemma AddSuccessor_cases:
  assumes wf: "edges_wf blocks" and bb: "bb < length blocks" and succ: "succ < length blocks"
  shows "AddSuccessor blocks bb succ =
           (if succ \<in> set (Successors (blocks ! bb)) then blocks else add_edge blocks bb succ)"
proof (cases "succ \<in> set (Successors (blocks ! bb))")
  case True
  then show ?thesis by (simp add: AddSuccessor_def)
next
  case False
  with edges_wf_predD[OF wf succ] have nopred: "bb \<notin> set (Predecessors (blocks ! succ))"
    by blast
  have "Predecessors (blocks[bb := (blocks ! bb)\<lparr>Successors := Successors (blocks ! bb) @ [succ]\<rparr>] ! succ)
          = Predecessors (blocks ! succ)"
    using bb by (cases "succ = bb") simp_all
  with False nopred show ?thesis
    by (simp add: AddSuccessor_def add_edge_def Let_def)
qed

lemma AddSuccessor_wf:
  "edges_wf blocks \<Longrightarrow> bb < length blocks \<Longrightarrow> succ < length blocks \<Longrightarrow>
   edges_wf (AddSuccessor blocks bb succ)"
  by (simp add: AddSuccessor_cases add_edge_wf)

lemma AddSuccessor_length [simp]: "length (AddSuccessor blocks bb succ) = length blocks"
  by (simp add: AddSuccessor_def Let_def)
lemma fold_invariant:
  "P s \<Longrightarrow> (\<And>x s. x \<in> set xs \<Longrightarrow> P s \<Longrightarrow> P (f x s)) \<Longrightarrow> P (fold f xs s)"
  by (induction xs arbitrary: s) auto


lemma same_edges_refl [simp]: "same_edges bs bs"
  by (simp add: same_edges_def)

lemma same_edges_trans: "same_edges a b \<Longrightarrow> same_edges b c \<Longrightarrow> same_edges a c"
  by (simp add: same_edges_def)

lemma same_edges_update:
  "Successors x = Successors (bs ! i) \<Longrightarrow> Predecessors x = Predecessors (bs ! i) \<Longrightarrow>
   same_edges bs (bs[i := x])"
  by (cases "i < length bs") (simp_all add: same_edges_def map_update list_update_same_conv list_update_beyond)

lemma same_edges_wf:
  assumes "same_edges bs bs'" and "edges_wf bs"
  shows "edges_wf bs'"
proof -
  from assms(1) have len: "length bs' = length bs"
    unfolding same_edges_def by (metis length_map)
  have S: "\<And>a. a < length bs \<Longrightarrow> Successors (bs' ! a) = Successors (bs ! a)"
    using assms(1) len unfolding same_edges_def by (metis nth_map)
  have P: "\<And>a. a < length bs \<Longrightarrow> Predecessors (bs' ! a) = Predecessors (bs ! a)"
    using assms(1) len unfolding same_edges_def by (metis nth_map)
  show ?thesis
    unfolding edges_wf_def len
  proof (intro allI impI conjI ballI)
    fix a b assume a: "a < length bs" and b: "b \<in> set (Successors (bs' ! a))"
    with edges_wf_succD[OF assms(2) a, of b] show "b < length bs" by (simp add: S)
    with edges_wf_succD[OF assms(2) a, of b] a b show "a \<in> set (Predecessors (bs' ! b))" by (simp add: S P)
  next
    fix a b assume a: "a < length bs" and b: "b \<in> set (Predecessors (bs' ! a))"
    with edges_wf_predD[OF assms(2) a, of b] show "b < length bs" by (simp add: P)
    with edges_wf_predD[OF assms(2) a, of b] a b show "a \<in> set (Successors (bs' ! b))" by (simp add: S P)
  next
    fix a assume a: "a < length bs"
    with edges_wf_distinctD[OF assms(2) a] show "distinct (Successors (bs' ! a))" by (simp add: S)
  next
    fix a assume a: "a < length bs"
    with edges_wf_distinctD[OF assms(2) a] show "distinct (Predecessors (bs' ! a))" by (simp add: P)
  qed
qed

lemma createBasicBlocks_step_no_edges:
  assumes "list_all no_edges blocks" and "case_option True no_edges cur"
    and "createBasicBlocks_step fn leaders x (blocks, cur, n) = (blocks', cur', n')"
  shows "list_all no_edges blocks' \<and> case_option True no_edges cur'"
  using assms
  by (cases x) (auto simp: createBasicBlocks_step_def Let_def no_edges_def split: if_splits option.splits)

lemma createBasicBlocks_no_edges: "list_all no_edges (createBasicBlocks fn leaders)"
proof -
  let ?P = "\<lambda>s :: BasicBlock list \<times> BasicBlock option \<times> nat.
              case s of (blocks, cur, n) \<Rightarrow> list_all no_edges blocks \<and> case_option True no_edges cur"
  have "?P (fold (createBasicBlocks_step fn leaders)
                 (zip [0..<length (Instructions fn)] (Instructions fn)) ([], None, 0))"
  proof (rule fold_invariant)
    show "?P ([], None, 0)" by simp
  next
    fix x and s :: "BasicBlock list \<times> BasicBlock option \<times> nat" assume "?P s"
    then show "?P (createBasicBlocks_step fn leaders x s)"
      using createBasicBlocks_step_no_edges[of "fst s" "fst (snd s)" fn leaders x "snd (snd s)"]
      by (cases s, cases "createBasicBlocks_step fn leaders x s") auto
  qed
  then show ?thesis
    by (auto simp: createBasicBlocks_def Let_def split: prod.splits option.splits)
qed

lemma no_edges_wf: "list_all no_edges blocks \<Longrightarrow> edges_wf blocks"
  by (auto simp: edges_wf_def no_edges_def list_all_length)


lemma makeBlockMap_range: "makeBlockMap blocks a = Some i \<Longrightarrow> i < length blocks"
proof -
  let ?P = "\<lambda>m :: 64 word \<rightharpoonup> nat. \<forall>a i. m a = Some i \<longrightarrow> i < length blocks"
  have "?P (makeBlockMap blocks)"
    unfolding makeBlockMap_def
  proof (rule fold_invariant[of ?P])
    show "?P Map.empty" by simp
  next
    fix x and m :: "64 word \<rightharpoonup> nat"
    assume "x \<in> set [0..<length blocks]" and "?P m"
    then show "?P (m(bb_StartAddr (blocks ! x) \<mapsto> x))" by auto
  qed
  then show "makeBlockMap blocks a = Some i \<Longrightarrow> i < length blocks" by blast
qed


lemma same_edges_update':
  "same_edges a bs \<Longrightarrow> Successors x = Successors (bs ! i) \<Longrightarrow> Predecessors x = Predecessors (bs ! i) \<Longrightarrow>
   same_edges a (bs[i := x])"
  by (erule same_edges_trans) (rule same_edges_update)

lemma connectBlock_wf:
  assumes "edges_wf blocks" and "i < length blocks" and "\<And>a t. blockMap a = Some t \<Longrightarrow> t < length blocks"
  shows "edges_wf (connectBlock blockMap i blocks) \<and> length (connectBlock blockMap i blocks) = length blocks"
  using assms
  by (auto simp: connectBlock_def Let_def AddSuccessor_wf split: option.splits)

lemma connectBlocks_wf:
  assumes "edges_wf blocks" and "\<And>a t. blockMap a = Some t \<Longrightarrow> t < length blocks"
  shows "edges_wf (connectBlocks blockMap blocks) \<and> length (connectBlocks blockMap blocks) = length blocks"
  unfolding connectBlocks_def
proof (rule fold_invariant)
  show "edges_wf blocks \<and> length blocks = length blocks" using assms by simp
next
  fix x s assume "x \<in> set [0..<length blocks]" and "edges_wf s \<and> length s = length blocks"
  then show "edges_wf (connectBlock blockMap x s) \<and> length (connectBlock blockMap x s) = length blocks"
    using connectBlock_wf[of s x blockMap] assms(2) by auto
qed

lemma mark_exits_edges: "same_edges (Blocks cfg) (Blocks (mark_exits cfg))"
  unfolding mark_exits_def
proof (rule fold_invariant[of "\<lambda>c. same_edges (Blocks cfg) (Blocks c)"])
  show "same_edges (Blocks cfg) (Blocks cfg)" by simp
next
  fix x c assume "same_edges (Blocks cfg) (Blocks c)"
  then show "same_edges (Blocks cfg)
      (Blocks (if EndsWithReturn (Blocks c ! x) \<or> length (Successors (Blocks c ! x)) = 0
               then c\<lparr>Blocks := (Blocks c)[x := (Blocks c ! x)\<lparr>IsExit := True\<rparr>],
                      ExitBlocks := ExitBlocks c @ [x]\<rparr>
               else c))"
    by (simp add: same_edges_update')
qed

lemma dominator_pass_edges:
  "dominator_pass entry xs blocks changed = Some (blocks', changed') \<Longrightarrow> same_edges blocks blocks'"
proof (induction xs arbitrary: blocks changed)
  case Nil
  then show ?case by simp
next
  case (Cons x xs)
  show ?case
  proof (cases "x = entry")
    case True
    with Cons show ?thesis by simp
  next
    case False
    from Cons.prems False obtain newDom where
      nd: "newDom_loop blocks (Predecessors (blocks ! x)) None = Some newDom"
      by (auto split: option.splits)
    show ?thesis
    proof (cases "newDom \<noteq> None \<and> newDom \<noteq> DominatedBy (blocks ! x)")
      case True
      with Cons.prems False nd
      have "dominator_pass entry xs (blocks[x := (blocks ! x)\<lparr>DominatedBy := newDom\<rparr>]) True = Some (blocks', changed')"
        by simp
      from Cons.IH[OF this] show ?thesis
        by (rule same_edges_trans[rotated]) (simp add: same_edges_update)
    next
      case F2: False
      with Cons.prems False nd
      have "dominator_pass entry xs blocks changed = Some (blocks', changed')"
        by auto
      from Cons.IH[OF this] show ?thesis .
    qed
  qed
qed

lemma dominator_loop_edges:
  "dominator_loop entry changed maxIterations blocks = Some blocks' \<Longrightarrow> same_edges blocks blocks'"
proof (induction maxIterations arbitrary: blocks changed)
  case 0
  then show ?case by simp
next
  case (Suc n)
  show ?case
  proof (cases changed)
    case False
    with Suc.prems show ?thesis by simp
  next
    case True
    with Suc.prems obtain b1 c1 where
      p: "dominator_pass entry [0..<length blocks] blocks False = Some (b1, c1)" and
      l: "dominator_loop entry c1 n b1 = Some blocks'"
      by (auto split: option.splits)
    from dominator_pass_edges[OF p] Suc.IH[OF l] show ?thesis
      by (rule same_edges_trans)
  qed
qed

lemma computeDominators_edges:
  "computeDominators cfg = Some cfg' \<Longrightarrow> same_edges (Blocks cfg) (Blocks cfg')"
proof -
  assume a: "computeDominators cfg = Some cfg'"
  show ?thesis
  proof (cases "EntryBlock cfg")
    case None
    with a show ?thesis by (simp add: computeDominators_def)
  next
    case (Some entry)
    show ?thesis
    proof (cases "length (Blocks cfg) = 0")
      case True
      with a Some show ?thesis by (simp add: computeDominators_def)
    next
      case False
      with a Some obtain bs where
        l: "dominator_loop entry True (length (Blocks cfg) * length (Blocks cfg))
              ((Blocks cfg)[entry := (Blocks cfg ! entry)\<lparr>DominatedBy := Some entry\<rparr>]) = Some bs"
        and c: "cfg' = cfg\<lparr>Blocks := bs\<rparr>"
        by (auto simp: computeDominators_def Let_def split: option.splits)
      have "same_edges (Blocks cfg) bs"
        by (rule same_edges_trans[OF _ dominator_loop_edges[OF l]]) (simp add: same_edges_update)
      with c show ?thesis by simp
    qed
  qed
qed

lemma mark_entry_edges: "same_edges (Blocks cfg) (Blocks (mark_entry cfg))"
  by (simp add: mark_entry_def same_edges_update)

lemma BuildCFG_edges_wf:
  assumes "BuildCFG fn = Some cfg"
  shows "edges_wf (Blocks cfg)"
proof (cases "length (Instructions fn) = 0")
  case True
  with assms have "Blocks cfg = []" by (auto simp: BuildCFG_def Let_def)
  then show ?thesis by (simp add: edges_wf_def)
next
  case False
  define blocks where "blocks = createBasicBlocks fn (identifyLeaders fn)"
  define cfg1 where "cfg1 = \<lparr>Blocks = connectBlocks (makeBlockMap blocks) blocks, EntryBlock = None,
                              ExitBlocks = [], cfg_Function = fn, BlockMap = makeBlockMap blocks\<rparr>"
  have wf1: "edges_wf (Blocks cfg1)"
    using connectBlocks_wf[OF no_edges_wf[OF createBasicBlocks_no_edges], of "makeBlockMap blocks" fn "identifyLeaders fn"]
          makeBlockMap_range[of blocks]
    unfolding cfg1_def blocks_def by simp
  from assms False have cd: "computeDominators (mark_exits (mark_entry cfg1)) = Some cfg"
    by (simp add: BuildCFG_def Let_def cfg1_def blocks_def)
  have "same_edges (Blocks cfg1) (Blocks cfg)"
    using same_edges_trans[OF same_edges_trans[OF mark_entry_edges mark_exits_edges] computeDominators_edges[OF cd]] .
  from same_edges_wf[OF this wf1] show ?thesis .
qed

section \<open>The dominance walk\<close>

text \<open>A walk that reaches a block which is its own \<open>DominatedBy\<close>, and is not the block
  looked for, never ends.\<close>

lemma Dominates_walk_stuck:
  assumes "DominatedBy (blocks ! c) = Some c" and "c \<noteq> bb"
  shows "Dominates_walk blocks bb (Some c) = None"
proof (rule ccontr)
  assume "Dominates_walk blocks bb (Some c) \<noteq> None"
  then obtain r where r: "Dominates_walk blocks bb (Some c) = Some r" by auto
  have "\<not> (blocks = blocks \<and> bb = bb \<and> Some c = Some c)"
  proof (rule Dominates_walk.raw_induct[where P = "\<lambda>bl b cur y. \<not> (bl = blocks \<and> b = bb \<and> cur = Some c)"
                                           and blocks = blocks and bb = bb and current = "Some c" and y = r])
    show "Dominates_walk blocks bb (Some c) = Some r" by (rule r)
  next
    fix walk bl b cur y
    assume IH: "\<And>bl b cur y. walk bl b cur = Some y \<Longrightarrow> \<not> (bl = blocks \<and> b = bb \<and> cur = Some c)"
      and step: "(case cur of None \<Rightarrow> Some False
                  | Some c' \<Rightarrow> if c' = b then Some True else walk bl b (DominatedBy (bl ! c'))) = Some y"
    show "\<not> (bl = blocks \<and> b = bb \<and> cur = Some c)"
    proof
      assume e: "bl = blocks \<and> b = bb \<and> cur = Some c"
      with step assms have "walk blocks bb (Some c) = Some y" by simp
      from IH[OF this] show False by simp
    qed
  qed
  then show False by simp
qed

text \<open>One step of the walk.\<close>

lemma Dominates_walk_step:
  "c \<noteq> bb \<Longrightarrow> Dominates_walk blocks bb (Some c) = Dominates_walk blocks bb (DominatedBy (blocks ! c))"
  by (subst Dominates_walk.simps) simp


lemma loop_walk_diverges: "Dominates loop_blocks 1 0 = None"
  unfolding Dominates_def by (rule Dominates_walk_stuck) (simp_all add: loop_blocks_def)

lemma loop_back_edges_diverge: "findBackEdges loop_cfg = None"
proof -
  have "backEdges_of loop_blocks 0 (Successors (loop_blocks ! 0)) [] = None"
    using loop_walk_diverges by (simp add: loop_blocks_def)
  then show ?thesis
    by (simp add: findBackEdges_def loop_cfg_def upt_rec[of 0] loop_blocks_def)
qed

section \<open>The claims\<close>

text \<open>
  Claim C1 says that the decoder returns size 0 whenever the input is too short for the
  encoding, naming the two bytes \<open>89 45\<close>.  On these two bytes (a \<open>MOV\<close> whose ModR/M
  byte has \<open>mod = 1\<close>) the decoder does not return: \<open>decodeModRMDetailed\<close> reads
  \<open>data[0]\<close> of the empty rest of the input and the program panics with an index out
  of range, for every address and architecture tag.
\<close>

theorem C1_truncated_mov_panics:
  "EnhancedDecodeInstruction [0x89, 0x45] addr arch = Inl IndexOutOfRange"
  by (simp add: decode_eval)

text \<open>
  Claim C2 says that \<open>DetectLoops\<close> terminates on a function with the blocks and edges
  \<open>B0 \<rightarrow> B1 \<rightarrow> B2 \<rightarrow> B1\<close> and returns one loop.  For the function
  \<open>nop; jmp 0x1003; jmp 0x1001\<close> the sweep, function discovery and \<open>BuildCFG\<close> produce
  exactly these blocks and edges, with \<open>DominatedBy = B0\<close> in every block, and
  \<open>DetectLoops\<close> does not return: the first test of \<open>findBackEdges\<close>,
  \<open>B1.Dominates(B0)\<close>, walks from \<open>B0\<close> to \<open>B0.DominatedBy = B0\<close> for ever.
\<close>

theorem C2_DetectLoops_diverges:
  "DisassembleSection loop_section ''x86_64'' = Disassembled loop_instructions
   \<and> FindFunctions loop_instructions loop_symbols = [loop_function]
   \<and> BuildCFG loop_function = Some loop_cfg
   \<and> map Successors (Blocks loop_cfg) = [[1], [2], [1]]
   \<and> map DominatedBy (Blocks loop_cfg) = [Some 0, Some 0, Some 0]
   \<and> Dominates (Blocks loop_cfg) 1 0 = None
   \<and> DetectLoops loop_cfg = None"
  using loop_decoded loop_found loop_built loop_walk_diverges loop_back_edges_diverge
  by (simp add: DetectLoops_def loop_cfg_def loop_blocks_def)

text \<open>
  Claim C3 says that a returned non-zero size never exceeds the length of the input and
  equals the length of the returned bytes, also for \<open>TEST\<close> in group \<open>0xF6\<close>/\<open>0xF7\<close>.
  On the two bytes \<open>F6 00\<close> the decoder skips the immediate of \<open>TEST\<close> without a
  length check and returns size 3 for an input of length 2; the bytes field stays empty.
\<close>

theorem C3_test_immediate_overruns_input:
  "EnhancedDecodeInstruction [0xF6, 0x00] addr arch = Inr (truncated_test addr, 3)
   \<and> Bytes (truncated_test addr) = []
   \<and> length [0xF6, 0x00 :: byte] < 3"
  by (simp add: truncated_test_def decode_eval)

text \<open>
  Claim C4 says that the displacement after a ModR/M byte with \<open>mod = 1\<close> or \<open>mod = 2\<close> is
  counted in the returned size.  It is not: for \<open>89 45 08\<close> (\<open>mov [ebp+0x8], eax\<close>,
  \<open>mod = 1\<close>) the decoder prints the displacement and returns size 2.
\<close>

theorem C4_displacement_not_counted:
  "EnhancedDecodeInstruction [0x89, 0x45, 0x08] 0x2000 ''x86'' = Inr (mov_disp8, 2)
   \<and> drop_bit 6 (0x45 :: byte) AND 0x3 = 1
   \<and> Operands mov_disp8 = ''[ebp+0x8], eax''
   \<and> Size mov_disp8 = 2"
  by (simp add: mov_disp8_def decode_eval)

text \<open>
  Claim C4 as amended.  For every instruction returned with a non-zero size whose case
  takes a ModR/M byte, at offset \<open>m\<close>, and whatever the \<open>mod\<close> field of that byte is, the
  returned size is \<open>m + 1\<close> plus the number of immediate bytes of the form.  That number
  is fixed by the opcode, by the \<open>reg\<close> field for \<open>0xF6\<close>/\<open>0xF7\<close> and, for \<open>0xC0\<close>/\<open>0xC1\<close>,
  by whether a byte follows the ModR/M byte; the \<open>mod\<close> field does not enter.  So no
  displacement is consumed with \<open>mod = 1\<close> or \<open>mod = 2\<close>: the bytes after the ModR/M byte
  are taken as the immediate when the form has one (\<open>83 45 08 01\<close> prints \<open>08\<close> both as
  the displacement and as the immediate and has size 3), and are otherwise left to the
  next instruction.  For every other two-byte opcode apart from \<open>Jcc rel32\<close> (among
  them \<open>BT\<close>, \<open>BTS\<close>, \<open>BTR\<close> and \<open>BTC\<close>) the size is the number of prefix bytes plus 2,
  and for a VEX prefix \<open>0xC4\<close> (\<open>0xC5\<close>) it is the number of prefix bytes plus 3 (plus
  2): no byte after the opcode bytes is counted at all, not even the ModR/M byte.
\<close>

theorem C4_size_excludes_displacement:
  assumes "EnhancedDecodeInstruction data addr arch = Inr (inst, n)" and "n \<noteq> 0"
  shows "(\<forall>m. modrm_position data arch = Some m \<longrightarrow> n = m + 1 + immediate_bytes data arch)
         \<and> (\<forall>k. opcode_bytes data arch = Some k \<longrightarrow> n = opcode_offset data arch + k)"
proof -
  from assms obtain rexW inst1 where
    off: "opcode_offset data arch < length data" and
    dec: "decode_opcode data addr (arch = ''x86_64'') rexW (data ! opcode_offset data arch)
       (opcode_offset data arch + 1) (Instruction_zero\<lparr>Address := addr\<rparr>) = Continue inst1 n"
    by (rule decode_success)
  let ?off = "opcode_offset data arch"
  let ?op = "data ! ?off"
  let ?zero = "Instruction_zero\<lparr>Address := addr\<rparr>"
  have first: "n = m + 1 + immediate_bytes data arch" if pos: "modrm_position data arch = Some m" for m
  proof -
    from pos have
      "(?off + 1 < length data \<and> ?op \<in> set modrm_opcodes) \<and> m = ?off + 1
       \<or> (?off + 1 < length data \<and> ?op \<in> set [0xC4, 0xC5] \<and> data ! (?off + 1) < 0xC0) \<and> m = ?off + 1
       \<or> (?off + 2 < length data \<and> ?op = 0x0F \<and> data ! (?off + 1) \<in> set modrm_opcodes2) \<and> m = ?off + 2"
      unfolding modrm_position_def Let_def by (rule first_of_three)
    then consider
        (one) "?op \<in> set modrm_opcodes" "m = ?off + 1"
      | (les) "?op \<in> set [0xC4, 0xC5]" "?off + 1 < length data" "data ! (?off + 1) < 0xC0" "m = ?off + 1"
      | (two) "?op = 0x0F" "?off + 2 < length data" "data ! (?off + 1) \<in> set modrm_opcodes2" "m = ?off + 2"
      by blast
    then show ?thesis
    proof cases
      case one
      from modrm_forms_size[OF one(1), of "?off + 1" data addr "arch = ''x86_64''" rexW ?zero] dec one(2)
      show ?thesis by (simp add: immediate_bytes_def Let_def)
    next
      case les
      from les(1) have "immediate_bytes data arch = 0"
        by (auto simp: immediate_bytes_def immediate_length_def Let_def)
      with les_lds_size[OF les(1,2,3), of addr "arch = ''x86_64''" rexW ?zero] dec les(4)
      show ?thesis by simp
    next
      case two
      from two(1) have "immediate_bytes data arch = 0"
        by (simp add: immediate_bytes_def immediate_length_def Let_def)
      moreover from two(2) have "?off + 1 + 1 < length data" by simp
      ultimately show ?thesis
        using modrm_forms2_size[OF two(3), of addr rexW ?zero] dec two(1,4)
        by (simp add: decode_opcode_0F)
    qed
  qed
  have second: "n = ?off + k" if len: "opcode_bytes data arch = Some k" for k
  proof -
    from len have
      "(?off + 1 < length data \<and> ?op = 0x0F \<and> data ! (?off + 1) \<notin> set jcc_rel32_opcodes
          \<and> data ! (?off + 1) \<notin> set modrm_opcodes2) \<and> k = 2
       \<or> (?off + 1 < length data \<and> ?op = 0xC4 \<and> data ! (?off + 1) \<ge> 0xC0) \<and> k = 3
       \<or> (?off + 1 < length data \<and> ?op = 0xC5 \<and> data ! (?off + 1) \<ge> 0xC0) \<and> k = 2"
      unfolding opcode_bytes_def Let_def by (rule first_of_three)
    then consider
        (two) "?op = 0x0F" "data ! (?off + 1) \<notin> set jcc_rel32_opcodes"
              "data ! (?off + 1) \<notin> set modrm_opcodes2" "k = 2"
      | (vex3) "?op = 0xC4" "?off + 1 < length data" "data ! (?off + 1) \<ge> 0xC0" "k = 3"
      | (vex2) "?op = 0xC5" "?off + 1 < length data" "data ! (?off + 1) \<ge> 0xC0" "k = 2"
      by blast
    then show ?thesis
    proof cases
      case two
      from opcode_only2_size[OF two(2,3), of addr rexW ?zero] dec two(1,4)
      show ?thesis by (simp add: decode_opcode_0F)
    next
      case vex3
      from vex_prefix_size[OF vex3(2,3), of addr "arch = ''x86_64''" rexW ?zero] dec vex3(1,4)
      show ?thesis by simp
    next
      case vex2
      from vex_prefix_size[OF vex2(2,3), of addr "arch = ''x86_64''" rexW ?zero] dec vex2(1,4)
      show ?thesis by simp
    qed
  qed
  from first second show ?thesis by blast
qed

theorem C4_size_excludes_displacement_witness:
  "EnhancedDecodeInstruction [0x83, 0x45, 0x08, 0x01] 0x2000 ''x86'' = Inr (add_disp8, 3)
   \<and> modrm_position [0x83, 0x45, 0x08, 0x01] ''x86'' = Some 1
   \<and> (3 :: nat) = 1 + 1 + immediate_bytes [0x83, 0x45, 0x08, 0x01] ''x86''
   \<and> Operands add_disp8 = ''[ebp+0x8], 0x8''
   \<and> EnhancedDecodeInstruction [0xFF, 0x55, 0x08] 0x2000 ''x86'' = Inr (call_disp8, 2)
   \<and> modrm_position [0xFF, 0x55, 0x08] ''x86'' = Some 1
   \<and> (2 :: nat) = 1 + 1 + immediate_bytes [0xFF, 0x55, 0x08] ''x86''
   \<and> EnhancedDecodeInstruction [0x0F, 0xB6, 0x45, 0x08] 0x2000 ''x86'' = Inr (movzx_disp8, 3)
   \<and> modrm_position [0x0F, 0xB6, 0x45, 0x08] ''x86'' = Some 2
   \<and> (3 :: nat) = 2 + 1 + immediate_bytes [0x0F, 0xB6, 0x45, 0x08] ''x86''
   \<and> EnhancedDecodeInstruction [0x0F, 0xA3, 0x45, 0x08] 0x2000 ''x86'' = Inr (bt_disp8, 2)
   \<and> opcode_bytes [0x0F, 0xA3, 0x45, 0x08] ''x86'' = Some 2
   \<and> (2 :: nat) = opcode_offset [0x0F, 0xA3, 0x45, 0x08] ''x86'' + 2
   \<and> EnhancedDecodeInstruction [0xC5, 0xF8, 0x10, 0x45, 0x08] 0x2000 ''x86'' = Inr (vex2_prefix, 2)
   \<and> opcode_bytes [0xC5, 0xF8, 0x10, 0x45, 0x08] ''x86'' = Some 2
   \<and> (2 :: nat) = opcode_offset [0xC5, 0xF8, 0x10, 0x45, 0x08] ''x86'' + 2"
proof -
  have nz: "(3 :: nat) \<noteq> 0" "(2 :: nat) \<noteq> 0" by simp_all
  have a1: "EnhancedDecodeInstruction [0x83, 0x45, 0x08, 0x01] 0x2000 ''x86'' = Inr (add_disp8, 3)"
    by (simp add: add_disp8_def decode_eval)
  have a2: "modrm_position [0x83, 0x45, 0x08, 0x01] ''x86'' = Some 1"
    by (simp add: family_eval)
  have a3: "(3 :: nat) = 1 + 1 + immediate_bytes [0x83, 0x45, 0x08, 0x01] ''x86''"
    using C4_size_excludes_displacement[OF a1 nz(1)] a2 by blast
  have a4: "Operands add_disp8 = ''[ebp+0x8], 0x8''"
    by (simp add: add_disp8_def)
  have b1: "EnhancedDecodeInstruction [0xFF, 0x55, 0x08] 0x2000 ''x86'' = Inr (call_disp8, 2)"
    by (simp add: call_disp8_def decode_eval)
  have b2: "modrm_position [0xFF, 0x55, 0x08] ''x86'' = Some 1"
    by (simp add: family_eval)
  have b3: "(2 :: nat) = 1 + 1 + immediate_bytes [0xFF, 0x55, 0x08] ''x86''"
    using C4_size_excludes_displacement[OF b1 nz(2)] b2 by blast
  have c1: "EnhancedDecodeInstruction [0x0F, 0xB6, 0x45, 0x08] 0x2000 ''x86'' = Inr (movzx_disp8, 3)"
    by (simp add: movzx_disp8_def decode_eval)
  have c2: "modrm_position [0x0F, 0xB6, 0x45, 0x08] ''x86'' = Some 2"
    by (simp add: family_eval)
  have c3: "(3 :: nat) = 2 + 1 + immediate_bytes [0x0F, 0xB6, 0x45, 0x08] ''x86''"
    using C4_size_excludes_displacement[OF c1 nz(1)] c2 by blast
  have d1: "EnhancedDecodeInstruction [0x0F, 0xA3, 0x45, 0x08] 0x2000 ''x86'' = Inr (bt_disp8, 2)"
    by (simp add: bt_disp8_def decode_eval)
  have d2: "opcode_bytes [0x0F, 0xA3, 0x45, 0x08] ''x86'' = Some 2"
    by (simp add: family_eval)
  have d3: "(2 :: nat) = opcode_offset [0x0F, 0xA3, 0x45, 0x08] ''x86'' + 2"
    using C4_size_excludes_displacement[OF d1 nz(2)] d2 by blast
  have e1: "EnhancedDecodeInstruction [0xC5, 0xF8, 0x10, 0x45, 0x08] 0x2000 ''x86'' = Inr (vex2_prefix, 2)"
    by (simp add: vex2_prefix_def decode_eval)
  have e2: "opcode_bytes [0xC5, 0xF8, 0x10, 0x45, 0x08] ''x86'' = Some 2"
    by (simp add: family_eval)
  have e3: "(2 :: nat) = opcode_offset [0xC5, 0xF8, 0x10, 0x45, 0x08] ''x86'' + 2"
    using C4_size_excludes_displacement[OF e1 nz(2)] e2 by blast
  show ?thesis by (intro conjI) (rule a1 a2 a3 a4 b1 b2 b3 c1 c2 c3 d1 d2 d3 e1 e2 e3)+
qed

text \<open>
  Claim C5 says that the prologue \<open>55 48 89 E5 48 83 EC 10 C3\<close> at \<open>0x3000\<close> lifts to a
  single block with exactly four operations, one of them an \<open>Assign\<close> for
  \<open>mov rbp, rsp\<close>.  The function has a single block and \<open>has_return\<close> holds, but
  \<open>Decompile\<close> yields three operations: the \<open>Assign\<close> it builds for the \<open>mov\<close> has kind
  0 and no comment, so the final test \<open>op.Type != 0 || op.Comment != ""\<close> drops it.
  (The first instruction is decoded as \<open>push ebp\<close> and yields the \<open>Assign\<close> with the
  comment \<open>save ebp\<close>.)
\<close>

theorem C5_prologue_lifts_to_three_operations:
  "DisassembleSection prologue_section ''x86_64'' = Disassembled prologue_instructions
   \<and> FindFunctions prologue_instructions [] = [prologue_function]
   \<and> map_option (\<lambda>cfg. length (Blocks cfg)) (BuildCFG prologue_function) = Some 1
   \<and> Operations (Decompile prologue_function) = prologue_operations
   \<and> map op_Type prologue_operations = [OpAssign, OpArithmetic, OpReturn]
   \<and> map op_Address prologue_operations = [0x3000, 0x3004, 0x3008]
   \<and> HasReturn (Decompile prologue_function)"
  using prologue_decoded prologue_found prologue_single_block prologue_lifted prologue_returns
  by (simp add: prologue_operations_def)

text \<open>
  Claim C6 says that every element of a function's \<open>calls\<close> list is the address of the
  callee.  For \<open>push ebp; call 0x2016; ret\<close> at \<open>0x2000\<close> the list holds \<open>0x2001\<close>, the
  address of the \<open>call\<close> instruction itself, not its target \<open>0x2016\<close>.
\<close>

theorem C6_calls_hold_call_site_addresses:
  "DisassembleSection call_section ''x86_64'' = Disassembled call_instructions
   \<and> FindFunctions call_instructions [] = [call_function]
   \<and> Calls call_function = [Address (call_instructions ! 1)]
   \<and> Address (call_instructions ! 1) = 0x2001
   \<and> BranchTarget (call_instructions ! 1) = 0x2016"
  using call_decoded call_found
  by (simp add: call_function_def call_instructions_def)

text \<open>
  Claim C7 says that a function closed because a marked start is reached gets as
  \<open>end_addr\<close> the address of the previous instruction, also when that instruction is
  longer than one byte.  For \<open>mov rbp, rsp; push ebp; nop; ret\<close> at \<open>0x1000\<close> the first
  function is closed when \<open>push ebp\<close> at \<open>0x1003\<close> is reached; its \<open>end_addr\<close> is
  \<open>0x1002\<close> (the new start minus one), while its last instruction, the three-byte
  \<open>mov\<close>, is at \<open>0x1000\<close>.
\<close>

theorem C7_end_addr_is_next_start_minus_one:
  "DisassembleSection boundary_section ''x86_64'' = Disassembled boundary_instructions
   \<and> FindFunctions boundary_instructions [] = boundary_functions
   \<and> EndAddr (boundary_functions ! 0) = 0x1002
   \<and> map Address (Instructions (boundary_functions ! 0)) = [0x1000]
   \<and> StartAddr (boundary_functions ! 1) = 0x1003"
  using boundary_decoded boundary_found
  by (simp add: boundary_functions_def boundary_instructions_def)

text \<open>
  Claim C8 says that \<open>is_conditional\<close> is true exactly for the Jcc, SETcc, CMOVcc and
  JRCXZ families.  It is false for SETcc: \<open>0F 94 C0\<close> (\<open>sete\<close>) is decoded with
  \<open>is_conditional = false\<close>.
\<close>

theorem C8_setcc_not_conditional:
  "EnhancedDecodeInstruction [0x0F, 0x94, 0xC0] 0x1000 ''x86'' = Inr (sete_al, 3)
   \<and> SETcc_family [0x0F, 0x94, 0xC0] ''x86''
   \<and> \<not> IsConditional sete_al"
  by (simp add: sete_al_def decode_eval family_eval)

text \<open>
  Claim C8 as amended: for every instruction the decoder returns with a non-zero size,
  \<open>is_conditional\<close> is true exactly when the instruction belongs to the Jcc family
  (short \<open>0x70\<close>-\<open>0x7F\<close> or long \<open>0x0F 0x80\<close>-\<open>0x8F\<close>) or is JRCXZ (\<open>0xE3\<close>); for SETcc,
  CMOVcc and every other decoded instruction it is false.
\<close>

theorem C8_conditional_exactly_jcc_and_jrcxz:
  assumes "EnhancedDecodeInstruction data addr arch = Inr (inst, n)" and "n \<noteq> 0"
  shows "IsConditional inst = (Jcc_family data arch \<or> JRCXZ_family data arch)
         \<and> (SETcc_family data arch \<or> CMOVcc_family data arch \<longrightarrow> \<not> IsConditional inst)"
proof -
  from assms obtain rexW inst1 where
    off: "opcode_offset data arch < length data" and
    dec: "decode_opcode data addr (arch = ''x86_64'') rexW (data ! opcode_offset data arch)
       (opcode_offset data arch + 1) (Instruction_zero\<lparr>Address := addr\<rparr>) = Continue inst1 n" and
    inst: "inst = (if n \<le> length data then inst1\<lparr>Size := n, Bytes := subslice data 0 n\<rparr> else inst1\<lparr>Size := n\<rparr>)"
    by (rule decode_success)
  let ?off = "opcode_offset data arch"
  let ?op = "data ! ?off"
  have c: "IsConditional inst = IsConditional inst1" using inst by simp
  have only: "IsConditional inst1 \<longrightarrow> ?op \<in> set jcc_rel8_opcodes \<or> ?op = 0xE3 \<or>
            (?op = 0x0F \<and> ?off + 1 < length data \<and> data ! (?off + 1) \<in> set jcc_rel32_opcodes)"
    using one_byte_cond[OF cond_zero, of "?op" "?off + 1" data addr "arch = ''x86_64''" rexW addr] dec
    by simp
  have if1: "?op \<in> set jcc_rel8_opcodes \<Longrightarrow> IsConditional inst1"
    using jcc_rel8_is_cond[of ?op data addr "arch = ''x86_64''" rexW "?off + 1" "Instruction_zero\<lparr>Address := addr\<rparr>"] dec
    by simp
  have if2: "?op = 0xE3 \<Longrightarrow> IsConditional inst1"
    using jrcxz_is_cond[of data addr "arch = ''x86_64''" rexW "?off + 1" "Instruction_zero\<lparr>Address := addr\<rparr>"] dec
    by simp
  have if3: "?op = 0x0F \<Longrightarrow> ?off + 1 < length data \<Longrightarrow> data ! (?off + 1) \<in> set jcc_rel32_opcodes
      \<Longrightarrow> IsConditional inst1"
    using jcc_rel32_is_cond[of "?off + 1" data addr "arch = ''x86_64''" rexW "Instruction_zero\<lparr>Address := addr\<rparr>"] dec
    by simp
  have iff: "IsConditional inst = (Jcc_family data arch \<or> JRCXZ_family data arch)"
    unfolding c Jcc_family_def JRCXZ_family_def one_byte_form_def two_byte_form_def Let_def
    using only if1 if2 if3 off by auto
  have disj: "\<And>b. b \<in> set setcc_opcodes \<or> b \<in> set cmovcc_opcodes \<Longrightarrow> b \<notin> set jcc_rel32_opcodes"
    by (auto simp: setcc_opcodes_def cmovcc_opcodes_def jcc_rel32_opcodes_def)
  have "(15::byte) \<notin> set jcc_rel8_opcodes" by (simp add: jcc_rel8_opcodes_def)
  then have "SETcc_family data arch \<or> CMOVcc_family data arch \<longrightarrow> \<not> IsConditional inst"
    unfolding c SETcc_family_def CMOVcc_family_def two_byte_form_def Let_def
    using only disj by auto
  with iff show ?thesis by simp
qed

theorem C8_conditional_exactly_jcc_and_jrcxz_witness:
  "EnhancedDecodeInstruction [0x74, 0x05] 0x1000 ''x86'' = Inr (je_short, 2)
   \<and> Jcc_family [0x74, 0x05] ''x86''
   \<and> IsConditional je_short
   \<and> EnhancedDecodeInstruction [0x0F, 0x94, 0xC0] 0x1000 ''x86'' = Inr (sete_al, 3)
   \<and> SETcc_family [0x0F, 0x94, 0xC0] ''x86''
   \<and> \<not> IsConditional sete_al"
proof -
  have a: "EnhancedDecodeInstruction [0x74, 0x05] 0x1000 ''x86'' = Inr (je_short, 2)"
    by (simp add: je_short_def decode_eval)
  have b: "(2 :: nat) \<noteq> 0" by simp
  have c: "Jcc_family [0x74, 0x05] ''x86''" by (simp add: family_eval)
  have "IsConditional je_short = (Jcc_family [0x74, 0x05] ''x86'' \<or> JRCXZ_family [0x74, 0x05] ''x86'')"
    using C8_conditional_exactly_jcc_and_jrcxz[OF a b] by (rule conjunct1)
  with c have d: "IsConditional je_short" by simp
  have e: "EnhancedDecodeInstruction [0x0F, 0x94, 0xC0] 0x1000 ''x86'' = Inr (sete_al, 3)"
    by (simp add: sete_al_def decode_eval)
  have f: "(3 :: nat) \<noteq> 0" by simp
  have g: "SETcc_family [0x0F, 0x94, 0xC0] ''x86''" by (simp add: family_eval)
  have "SETcc_family [0x0F, 0x94, 0xC0] ''x86'' \<or> CMOVcc_family [0x0F, 0x94, 0xC0] ''x86''
        \<longrightarrow> \<not> IsConditional sete_al"
    using C8_conditional_exactly_jcc_and_jrcxz[OF e f] by (rule conjunct2)
  with g have h: "\<not> IsConditional sete_al" by simp
  show ?thesis by (intro conjI) (rule a c d e g h)+
qed

text \<open>
  Claim C9 says that for every decoded instruction of the short-jump family, including
  \<open>0xE0\<close>-\<open>0xE3\<close>, the branch target is \<open>address + size + sign_extend(imm8)\<close>.  The
  loop forms add the constant 2 instead of the size: \<open>67 E2 05\<close> (\<open>loop\<close> with an
  address-size prefix) at \<open>0x1000\<close> has size 3 and target \<open>0x1007\<close>, not \<open>0x1008\<close>.
\<close>

theorem C9_prefixed_loop_target:
  "EnhancedDecodeInstruction [0x67, 0xE2, 0x05] 0x1000 ''x86'' = Inr (prefixed_loop, 3)
   \<and> BranchTarget prefixed_loop = 0x1007
   \<and> Address prefixed_loop + word_of_nat (Size prefixed_loop) + scast (0x05 :: byte) = 0x1008"
  by (simp add: prefixed_loop_def decode_eval)

text \<open>
  Claim C10: the edge lists of every graph produced by \<open>BuildCFG\<close> are symmetric and
  free of duplicates: \<open>b\<close> is among the successors of \<open>a\<close> exactly when \<open>a\<close> is among
  the predecessors of \<open>b\<close>, and no list holds a block twice.  The property holds
  after \<open>connectBlocks\<close> and is preserved by every call of \<open>AddSuccessor\<close> on blocks of
  the graph.
\<close>

theorem C10_edges_symmetric_and_duplicate_free:
  "(\<forall>fn cfg. BuildCFG fn = Some cfg \<longrightarrow> edges_wf (Blocks cfg))
   \<and> (\<forall>fn. edges_wf (connectBlocks (makeBlockMap (createBasicBlocks fn (identifyLeaders fn)))
                                    (createBasicBlocks fn (identifyLeaders fn))))
   \<and> (\<forall>blocks bb succ. edges_wf blocks \<and> bb < length blocks \<and> succ < length blocks
          \<longrightarrow> edges_wf (AddSuccessor blocks bb succ))"
proof (intro conjI allI impI)
  fix fn cfg assume "BuildCFG fn = Some cfg"
  then show "edges_wf (Blocks cfg)" by (rule BuildCFG_edges_wf)
next
  fix fn
  show "edges_wf (connectBlocks (makeBlockMap (createBasicBlocks fn (identifyLeaders fn)))
                                (createBasicBlocks fn (identifyLeaders fn)))"
    using connectBlocks_wf[OF no_edges_wf[OF createBasicBlocks_no_edges],
                           of "makeBlockMap (createBasicBlocks fn (identifyLeaders fn))" fn "identifyLeaders fn"]
          makeBlockMap_range by blast
next
  fix blocks bb succ
  assume "edges_wf blocks \<and> bb < length blocks \<and> succ < length blocks"
  then show "edges_wf (AddSuccessor blocks bb succ)" by (simp add: AddSuccessor_wf)
qed

theorem C10_edges_symmetric_and_duplicate_free_witness:
  "BuildCFG loop_function = Some loop_cfg
   \<and> edges_wf (Blocks loop_cfg)
   \<and> (0 :: nat) < length (Blocks loop_cfg) \<and> (2 :: nat) < length (Blocks loop_cfg)
   \<and> edges_wf (AddSuccessor (Blocks loop_cfg) 0 2)
   \<and> map Successors (AddSuccessor (Blocks loop_cfg) 0 2) = [[1, 2], [2], [1]]
   \<and> map Predecessors (AddSuccessor (Blocks loop_cfg) 0 2) = [[], [0, 2], [1, 0]]"
proof -
  note C = C10_edges_symmetric_and_duplicate_free
  have wf: "edges_wf (Blocks loop_cfg)"
    using C loop_built by blast
  have len: "(0 :: nat) < length (Blocks loop_cfg) \<and> (2 :: nat) < length (Blocks loop_cfg)"
    by (simp add: loop_cfg_def loop_blocks_def)
  have "edges_wf (AddSuccessor (Blocks loop_cfg) 0 2)"
    using C wf len by blast
  moreover have "map Successors (AddSuccessor (Blocks loop_cfg) 0 2) = [[1, 2], [2], [1]]"
    by (simp add: AddSuccessor_def loop_cfg_def loop_blocks_def)
  moreover have "map Predecessors (AddSuccessor (Blocks loop_cfg) 0 2) = [[], [0, 2], [1, 0]]"
    by (simp add: AddSuccessor_def loop_cfg_def loop_blocks_def)
  ultimately show ?thesis using loop_built wf len by simp
qed

end
